theory Spec2Isabelle
  imports Complex_Main
begin

section \<open>Python values used by trading\_bot.py\<close>

text \<open>
  A Python float is a finite value, an infinity or not-a-number. The finite values are
  kept as rationals (every finite double is one); only comparisons with the IEEE rules
  for infinities and NaN are used by the program, never arithmetic.
\<close>

datatype pyfloat = Fin rat | PInf | NInf | NaN

text \<open>\<open>a <= b\<close> on floats: false as soon as one side is NaN.\<close>

fun float_le :: "pyfloat \<Rightarrow> pyfloat \<Rightarrow> bool" where
  "float_le NaN b = False"
| "float_le a NaN = False"
| "float_le NInf b = True"
| "float_le a PInf = True"
| "float_le (Fin a) (Fin b) = (a \<le> b)"
| "float_le PInf b = False"
| "float_le a NInf = False"

definition float_ge :: "pyfloat \<Rightarrow> pyfloat \<Rightarrow> bool" where
  "float_ge a b = float_le b a"

text \<open>Truth value of a float: everything but zero (NaN included) is true.\<close>

definition float_truthy :: "pyfloat \<Rightarrow> bool" where
  "float_truthy v = (v \<noteq> Fin 0)"

text \<open>
  A text is a list of characters, compared with the program's literals (all of them
  ASCII) by plain equality. \<open>str.upper()\<close> maps the 26 lower-case letters to upper
  case and leaves every other character alone. \<open>str.strip()\<close> and \<open>str.lower()\<close>
  are taken from the run-time environment below, as \<open>float()\<close> is: which characters
  Python removes or folds is not written down here.
\<close>

definition ascii_lowercase :: string where
  "ascii_lowercase = ''abcdefghijklmnopqrstuvwxyz''"

definition ascii_uppercase :: string where
  "ascii_uppercase = ''ABCDEFGHIJKLMNOPQRSTUVWXYZ''"

definition upper_char :: "char \<Rightarrow> char" where
  "upper_char c = (case map_of (zip ascii_lowercase ascii_uppercase) c of
                     Some d \<Rightarrow> d | None \<Rightarrow> c)"

definition upper :: "string \<Rightarrow> string" where
  "upper s = map upper_char s"

text \<open>Truth value of an optional string (\<open>None\<close> and the empty string are false).\<close>

definition str_truthy :: "string option \<Rightarrow> bool" where
  "str_truthy v = (case v of None \<Rightarrow> False | Some s \<Rightarrow> s \<noteq> [])"

definition opt_float_truthy :: "pyfloat option \<Rightarrow> bool" where
  "opt_float_truthy v = (case v of None \<Rightarrow> False | Some x \<Rightarrow> float_truthy x)"

section \<open>Exceptions\<close>

text \<open>
  Every exception the program can meet is a subclass of \<open>Exception\<close>, so each
  \<open>except Exception\<close> handler catches all of them. The argument is the message.
\<close>

datatype exn =
    ValueError string
  | KeyError string
  | AttributeError string
  | UnboundLocalError string
  | EOFError
  | BinanceAPIException string
  | BinanceOrderException string
  | OtherException string

section \<open>The run-time environment\<close>

text \<open>
  A response of the exchange is a dictionary with text values; the keyword arguments of
  an order submission are texts or floats.
\<close>

type_synonym dict = "(string \<times> string) list"

datatype pval = Str string | Num pyfloat

type_synonym params = "(string \<times> pval) list"

text \<open>The calls made on the python-binance client, in the order they are made.\<close>

datatype call =
    Client_new string string
  | Futures_account
  | Futures_exchange_info
  | Futures_symbol_ticker string
  | Futures_create_order params
  | Futures_get_open_orders "string option"

text \<open>
  What the program calls and does not define: Python's built-in \<open>float()\<close> on
  a text (\<open>None\<close> when it raises \<open>ValueError\<close>), the string methods \<open>strip()\<close> and
  \<open>lower()\<close>, and the python-binance client. The
  answer of the exchange to a call may depend on every call made before it, so each
  operation receives the history. An account answer is its top-level fields and its
  \<open>positions\<close> list (when present); the exchange information is its \<open>symbols\<close>
  list.
\<close>

record runtime =
  float_of_str :: "string \<Rightarrow> pyfloat option"
  str_strip :: "string \<Rightarrow> string"
  str_lower :: "string \<Rightarrow> string"
  client_new :: "call list \<Rightarrow> string \<Rightarrow> string \<Rightarrow> exn option"
  futures_account :: "call list \<Rightarrow> exn + (dict \<times> dict list option)"
  futures_exchange_info :: "call list \<Rightarrow> exn + dict list"
  futures_symbol_ticker :: "call list \<Rightarrow> string \<Rightarrow> exn + dict"
  futures_create_order :: "call list \<Rightarrow> params \<Rightarrow> exn + dict"
  futures_get_open_orders :: "call list \<Rightarrow> string option \<Rightarrow> exn + dict list"

text \<open>
  The constants of the client library that the order builder uses.
  Modelled from the spec: \<open>Client.ORDER_TYPE_MARKET\<close>, \<open>Client.ORDER_TYPE_LIMIT\<close>
  and \<open>Client.TIME_IN_FORCE_GTC\<close> are defined by python-binance, not by this
  repository; the specification gives the wire values MARKET, LIMIT and GTC.
\<close>

definition ORDER_TYPE_MARKET :: string where
  "ORDER_TYPE_MARKET = ''MARKET''"

definition ORDER_TYPE_LIMIT :: string where
  "ORDER_TYPE_LIMIT = ''LIMIT''"

definition TIME_IN_FORCE_GTC :: string where
  "TIME_IN_FORCE_GTC = ''GTC''"

section \<open>Input, output and effects\<close>

text \<open>
  What is written to standard output, and which prompt an \<open>input()\<close> call
  shows. Log lines are not part of the model.
\<close>

datatype prompt =
    AskApiKey | AskApiSecret | AskChoice
  | AskSymbol | AskSide | AskQuantity | AskPrice | AskStopPrice | AskLimitPrice
  | AskConfirm

datatype out =
    Say string
  | Prompt prompt
  | ShowError exn
  | ShowErrorIn string exn
  | ShowPrice pyfloat
  | ShowOrder dict
  | ShowAccount dict
  | ShowFields "string list"

text \<open>
  The state of a run: the lines still waiting on standard input, what was printed, and
  the calls made on the client so far.
\<close>

record io =
  stdin :: "string list"
  printed :: "out list"
  calls :: "call list"

type_synonym 'a prog = "io \<Rightarrow> (exn + 'a) \<times> io"

definition ret :: "'a \<Rightarrow> 'a prog" where
  "ret x s = (Inr x, s)"

definition throw :: "exn \<Rightarrow> 'a prog" where
  "throw e s = (Inl e, s)"

definition lift :: "exn + 'a \<Rightarrow> 'a prog" where
  "lift r s = (r, s)"

definition bind :: "'a prog \<Rightarrow> ('a \<Rightarrow> 'b prog) \<Rightarrow> 'b prog" where
  "bind m f s = (case m s of (Inl e, s') \<Rightarrow> (Inl e, s') | (Inr x, s') \<Rightarrow> f x s')"

text \<open>\<open>try: m except Exception as e: h e\<close>\<close>

definition try_except :: "'a prog \<Rightarrow> (exn \<Rightarrow> 'a prog) \<Rightarrow> 'a prog" where
  "try_except m h s = (case m s of (Inl e, s') \<Rightarrow> h e s' | (Inr x, s') \<Rightarrow> (Inr x, s'))"

definition py_print :: "out \<Rightarrow> unit prog" where
  "py_print x s = (Inr (), s\<lparr>printed := printed s @ [x]\<rparr>)"

text \<open>\<open>input(prompt)\<close>: shows the prompt, then reads a line; at end of input it raises.\<close>

definition py_input :: "prompt \<Rightarrow> string prog" where
  "py_input p s =
     (case stdin s of
        [] \<Rightarrow> (Inl EOFError, s\<lparr>printed := printed s @ [Prompt p]\<rparr>)
      | x # xs \<Rightarrow> (Inr x, s\<lparr>stdin := xs, printed := printed s @ [Prompt p]\<rparr>))"

text \<open>A call on the client: recorded, and answered from the history before it.\<close>

definition client_call :: "call \<Rightarrow> (call list \<Rightarrow> exn + 'a) \<Rightarrow> 'a prog" where
  "client_call c answer s = (answer (calls s), s\<lparr>calls := calls s @ [c]\<rparr>)"

text \<open>\<open>d[k]\<close> raises \<open>KeyError\<close> on a missing key; \<open>float(text)\<close> raises \<open>ValueError\<close>.\<close>

definition getitem :: "dict \<Rightarrow> string \<Rightarrow> exn + string" where
  "getitem d k = (case map_of d k of None \<Rightarrow> Inl (KeyError k) | Some v \<Rightarrow> Inr v)"

definition py_float :: "runtime \<Rightarrow> string \<Rightarrow> exn + pyfloat" where
  "py_float rt txt =
     (case float_of_str rt txt of
        None \<Rightarrow> Inl (ValueError (''could not convert string to float: '' @ txt))
      | Some v \<Rightarrow> Inr v)"

section \<open>class TradingBot\<close>

text \<open>
  The methods log and re-raise what they catch; without the log lines a handler
  \<open>except ... as e: raise\<close> is \<open>try_except body throw\<close>.
\<close>

definition test_connection :: "runtime \<Rightarrow> bool prog" where
  "test_connection rt =
     try_except
       (bind (client_call Futures_account (futures_account rt)) (\<lambda>account_info. ret True))
       (\<lambda>e. ret False)"

text \<open>\<open>TradingBot(api_key, api_secret, testnet=True)\<close>: builds the client, then tests the connection.\<close>

definition TradingBot :: "runtime \<Rightarrow> string \<Rightarrow> string \<Rightarrow> unit prog" where
  "TradingBot rt api_key api_secret =
     bind (client_call (Client_new api_key api_secret)
             (\<lambda>h. case client_new rt h api_key api_secret of Some e \<Rightarrow> Inl e | None \<Rightarrow> Inr ()))
       (\<lambda>client. bind (test_connection rt) (\<lambda>connected. ret ()))"

definition get_account_info :: "runtime \<Rightarrow> (dict \<times> dict list option) prog" where
  "get_account_info rt =
     try_except (client_call Futures_account (futures_account rt)) throw"

text \<open>
  The search loop of \<open>get_symbol_info\<close>: the first entry whose \<open>symbol\<close> is the
  wanted name. An entry that matched has a \<open>symbol\<close> key, so it is not an empty
  dictionary and \<open>not symbol_info\<close> holds only for \<open>None\<close>.
\<close>

fun find_symbol :: "dict list \<Rightarrow> string \<Rightarrow> exn + dict option" where
  "find_symbol [] name = Inr None"
| "find_symbol (s # rest) name =
     (case getitem s ''symbol'' of
        Inl e \<Rightarrow> Inl e
      | Inr v \<Rightarrow> if v = name then Inr (Some s) else find_symbol rest name)"

definition get_symbol_info :: "runtime \<Rightarrow> string \<Rightarrow> dict prog" where
  "get_symbol_info rt symbol =
     try_except
       (bind (client_call Futures_exchange_info (futures_exchange_info rt)) (\<lambda>symbols.
        bind (lift (find_symbol symbols (upper symbol))) (\<lambda>symbol_info.
          case symbol_info of
            None \<Rightarrow> throw (ValueError (''Symbol '' @ symbol @ '' not found''))
          | Some info \<Rightarrow>
              bind (lift (getitem info ''status'')) (\<lambda>status.
                if status \<noteq> ''TRADING''
                then throw (ValueError (''Symbol '' @ symbol @ '' is not available for trading''))
                else ret info))))
       throw"

definition get_current_price :: "runtime \<Rightarrow> string \<Rightarrow> pyfloat prog" where
  "get_current_price rt symbol =
     try_except
       (bind (client_call (Futures_symbol_ticker (upper symbol))
                (\<lambda>h. futures_symbol_ticker rt h (upper symbol))) (\<lambda>ticker.
        bind (lift (getitem ticker ''price'')) (\<lambda>txt.
        lift (py_float rt txt))))
       throw"

text \<open>The keyword arguments each method passes to \<open>futures_create_order\<close>.\<close>

definition market_order_params :: "string \<Rightarrow> string \<Rightarrow> pyfloat \<Rightarrow> params" where
  "market_order_params symbol side quantity =
     [(''symbol'', Str (upper symbol)),
      (''side'', Str (upper side)),
      (''type'', Str ORDER_TYPE_MARKET),
      (''quantity'', Num quantity)]"

definition limit_order_params :: "string \<Rightarrow> string \<Rightarrow> pyfloat \<Rightarrow> pyfloat \<Rightarrow> params" where
  "limit_order_params symbol side quantity price =
     [(''symbol'', Str (upper symbol)),
      (''side'', Str (upper side)),
      (''type'', Str ORDER_TYPE_LIMIT),
      (''quantity'', Num quantity),
      (''price'', Num price),
      (''timeInForce'', Str TIME_IN_FORCE_GTC)]"

definition stop_limit_order_params ::
  "string \<Rightarrow> string \<Rightarrow> pyfloat \<Rightarrow> pyfloat \<Rightarrow> pyfloat \<Rightarrow> params" where
  "stop_limit_order_params symbol side quantity stop_price limit_price =
     [(''symbol'', Str (upper symbol)),
      (''side'', Str (upper side)),
      (''type'', Str ''STOP''),
      (''quantity'', Num quantity),
      (''stopPrice'', Num stop_price),
      (''price'', Num limit_price),
      (''timeInForce'', Str ''GTC'')]"

text \<open>
  The body shared by the three methods: one call of \<open>futures_create_order\<close>, then the
  two log lines that read \<open>order['orderId']\<close> and \<open>order['status']\<close>.
\<close>

definition create_order :: "runtime \<Rightarrow> params \<Rightarrow> dict prog" where
  "create_order rt ps =
     bind (client_call (Futures_create_order ps) (\<lambda>h. futures_create_order rt h ps)) (\<lambda>order.
     bind (lift (getitem order ''orderId'')) (\<lambda>order_id.
     bind (lift (getitem order ''status'')) (\<lambda>status.
     ret order)))"

definition place_market_order :: "runtime \<Rightarrow> string \<Rightarrow> string \<Rightarrow> pyfloat \<Rightarrow> dict prog" where
  "place_market_order rt symbol side quantity =
     try_except (create_order rt (market_order_params symbol side quantity)) throw"

definition place_limit_order ::
  "runtime \<Rightarrow> string \<Rightarrow> string \<Rightarrow> pyfloat \<Rightarrow> pyfloat \<Rightarrow> dict prog" where
  "place_limit_order rt symbol side quantity price =
     try_except (create_order rt (limit_order_params symbol side quantity price)) throw"

definition place_stop_limit_order ::
  "runtime \<Rightarrow> string \<Rightarrow> string \<Rightarrow> pyfloat \<Rightarrow> pyfloat \<Rightarrow> pyfloat \<Rightarrow> dict prog" where
  "place_stop_limit_order rt symbol side quantity stop_price limit_price =
     try_except
       (create_order rt (stop_limit_order_params symbol side quantity stop_price limit_price))
       throw"

definition get_open_orders :: "runtime \<Rightarrow> string option \<Rightarrow> dict list prog" where
  "get_open_orders rt symbol =
     try_except
       (case symbol of
          Some name \<Rightarrow>
            if name \<noteq> []
            then client_call (Futures_get_open_orders (Some (upper name)))
                   (\<lambda>h. futures_get_open_orders rt h (Some (upper name)))
            else client_call (Futures_get_open_orders None)
                   (\<lambda>h. futures_get_open_orders rt h None)
        | None \<Rightarrow>
            client_call (Futures_get_open_orders None) (\<lambda>h. futures_get_open_orders rt h None))
       throw"

text \<open>
  Printing only: the fields are read with \<open>order.get\<close>, which never raises, and the
  time stamp is the integer the exchange sends. \<open>get_order_status\<close> and
  \<open>cancel_order\<close> are called by no menu and by no branch of \<open>main\<close>; they are left
  out.
\<close>

definition display_order_details :: "dict \<Rightarrow> unit prog" where
  "display_order_details order = py_print (ShowOrder order)"

section \<open>class TradingBotCLI\<close>

definition setup_bot :: "runtime \<Rightarrow> bool prog" where
  "setup_bot rt =
     bind (py_print (Say ''Binance Futures Trading Bot Setup'')) (\<lambda>u.
     bind (py_input AskApiKey) (\<lambda>key_line.
     bind (py_input AskApiSecret) (\<lambda>secret_line.
       let api_key = str_strip rt key_line; api_secret = str_strip rt secret_line in
       if api_key = [] \<or> api_secret = []
       then bind (py_print (Say ''API credentials are required!'')) (\<lambda>u. ret False)
       else try_except
              (bind (TradingBot rt api_key api_secret) (\<lambda>bot. ret True))
              (\<lambda>e. bind (py_print (ShowErrorIn ''Failed to initialize bot'' e)) (\<lambda>u. ret False)))))"

text \<open>
  \<open>try: body except ValueError: raise ValueError(msg)\<close>: a \<open>ValueError\<close> raised by the
  body, whatever its message, is replaced; any other result passes.
\<close>

definition except_ValueError :: "exn + 'a \<Rightarrow> string \<Rightarrow> exn + 'a" where
  "except_ValueError body msg =
     (case body of
        Inl (ValueError m) \<Rightarrow> Inl (ValueError msg)
      | Inl e \<Rightarrow> Inl e
      | Inr x \<Rightarrow> Inr x)"

definition side_message :: string where
  "side_message =
     ''Side must be '' @ [CHR 0x27] @ ''BUY'' @ [CHR 0x27] @ '' or '' @ [CHR 0x27] @ ''SELL'' @ [CHR 0x27]"

definition validate_inputs ::
  "runtime \<Rightarrow> string \<Rightarrow> string \<Rightarrow> string \<Rightarrow> exn + (string \<times> string \<times> pyfloat)" where
  "validate_inputs rt symbol side quantity =
     (if symbol = [] then Inl (ValueError ''Symbol is required'')
      else if upper side \<notin> set [''BUY'', ''SELL''] then Inl (ValueError side_message)
      else
        case except_ValueError
               (case py_float rt quantity of
                  Inl e \<Rightarrow> Inl e
                | Inr qty \<Rightarrow>
                    if float_le qty (Fin 0) then Inl (ValueError ''Quantity must be positive'')
                    else Inr qty)
               ''Invalid quantity format'' of
          Inl e \<Rightarrow> Inl e
        | Inr qty \<Rightarrow> Inr (upper symbol, upper side, qty))"

text \<open>\<open>input(...).strip()\<close> and \<open>input(...).strip().lower()\<close>\<close>

definition input_strip :: "runtime \<Rightarrow> prompt \<Rightarrow> string prog" where
  "input_strip rt p = bind (py_input p) (\<lambda>line. ret (str_strip rt line))"

definition input_strip_lower :: "runtime \<Rightarrow> prompt \<Rightarrow> string prog" where
  "input_strip_lower rt p =
     bind (py_input p) (\<lambda>line. ret (str_lower rt (str_strip rt line)))"

definition market_order_menu :: "runtime \<Rightarrow> unit prog" where
  "market_order_menu rt =
     bind (py_print (Say ''MARKET ORDER'')) (\<lambda>u.
     try_except
       (bind (input_strip rt AskSymbol) (\<lambda>symbol.
        bind (input_strip rt AskSide) (\<lambda>side.
        bind (input_strip rt AskQuantity) (\<lambda>quantity.
        bind (lift (validate_inputs rt symbol side quantity)) (\<lambda>(symbol, side, qty).
        bind (get_current_price rt symbol) (\<lambda>current_price.
        bind (py_print (ShowPrice current_price)) (\<lambda>u.
        bind (input_strip_lower rt AskConfirm) (\<lambda>confirm.
          if confirm = ''y''
          then bind (place_market_order rt symbol side qty) display_order_details
          else py_print (Say ''Order cancelled.'')))))))))
       (\<lambda>e. py_print (ShowError e)))"

definition limit_order_menu :: "runtime \<Rightarrow> unit prog" where
  "limit_order_menu rt =
     bind (py_print (Say ''LIMIT ORDER'')) (\<lambda>u.
     try_except
       (bind (input_strip rt AskSymbol) (\<lambda>symbol.
        bind (input_strip rt AskSide) (\<lambda>side.
        bind (input_strip rt AskQuantity) (\<lambda>quantity.
        bind (input_strip rt AskPrice) (\<lambda>price.
        bind (lift (validate_inputs rt symbol side quantity)) (\<lambda>(symbol, side, qty).
        bind (lift (except_ValueError
                      (case py_float rt price of
                         Inl e \<Rightarrow> Inl e
                       | Inr limit_price \<Rightarrow>
                           if float_le limit_price (Fin 0)
                           then Inl (ValueError ''Price must be positive'')
                           else Inr limit_price)
                      ''Invalid price format'')) (\<lambda>limit_price.
        bind (get_current_price rt symbol) (\<lambda>current_price.
        bind (py_print (ShowPrice current_price)) (\<lambda>u.
        bind (input_strip_lower rt AskConfirm) (\<lambda>confirm.
          if confirm = ''y''
          then bind (place_limit_order rt symbol side qty limit_price) display_order_details
          else py_print (Say ''Order cancelled.'')))))))))))
       (\<lambda>e. py_print (ShowError e)))"

definition stop_limit_order_menu :: "runtime \<Rightarrow> unit prog" where
  "stop_limit_order_menu rt =
     bind (py_print (Say ''STOP-LIMIT ORDER'')) (\<lambda>u.
     try_except
       (bind (input_strip rt AskSymbol) (\<lambda>symbol.
        bind (input_strip rt AskSide) (\<lambda>side.
        bind (input_strip rt AskQuantity) (\<lambda>quantity.
        bind (input_strip rt AskStopPrice) (\<lambda>stop_price.
        bind (input_strip rt AskLimitPrice) (\<lambda>limit_price.
        bind (lift (validate_inputs rt symbol side quantity)) (\<lambda>(symbol, side, qty).
        bind (lift (except_ValueError
                      (case py_float rt stop_price of
                         Inl e \<Rightarrow> Inl e
                       | Inr stop_px \<Rightarrow>
                           (case py_float rt limit_price of
                              Inl e \<Rightarrow> Inl e
                            | Inr limit_px \<Rightarrow>
                                if float_le stop_px (Fin 0) \<or> float_le limit_px (Fin 0)
                                then Inl (ValueError ''Prices must be positive'')
                                else Inr (stop_px, limit_px)))
                      ''Invalid price format'')) (\<lambda>(stop_px, limit_px).
        bind (get_current_price rt symbol) (\<lambda>current_price.
        bind (py_print (ShowPrice current_price)) (\<lambda>u.
        bind (input_strip_lower rt AskConfirm) (\<lambda>confirm.
          if confirm = ''y''
          then bind (place_stop_limit_order rt symbol side qty stop_px limit_px)
                 display_order_details
          else py_print (Say ''Order cancelled.''))))))))))))
       (\<lambda>e. py_print (ShowError e)))"

text \<open>
  A \<open>for\<close> loop over dictionaries whose body prints; it stops at the first
  exception. \<open>getitems d ks\<close> reads \<open>d[k]\<close> for each key in turn.
\<close>

fun for_each :: "(dict \<Rightarrow> unit prog) \<Rightarrow> dict list \<Rightarrow> unit prog" where
  "for_each body [] s = (Inr (), s)"
| "for_each body (d # ds) s =
     (case body d s of (Inl e, s') \<Rightarrow> (Inl e, s') | (Inr u, s') \<Rightarrow> for_each body ds s')"

fun getitems :: "dict \<Rightarrow> string list \<Rightarrow> exn + string list" where
  "getitems d [] = Inr []"
| "getitems d (k # ks) =
     (case getitem d k of
        Inl e \<Rightarrow> Inl e
      | Inr v \<Rightarrow> (case getitems d ks of Inl e \<Rightarrow> Inl e | Inr vs \<Rightarrow> Inr (v # vs)))"

text \<open>The positions with \<open>float(pos['positionAmt']) != 0\<close>.\<close>

fun open_positions :: "runtime \<Rightarrow> dict list \<Rightarrow> exn + dict list" where
  "open_positions rt [] = Inr []"
| "open_positions rt (pos # rest) =
     (case getitem pos ''positionAmt'' of
        Inl e \<Rightarrow> Inl e
      | Inr txt \<Rightarrow>
          (case py_float rt txt of
             Inl e \<Rightarrow> Inl e
           | Inr amt \<Rightarrow>
               (case open_positions rt rest of
                  Inl e \<Rightarrow> Inl e
                | Inr ps \<Rightarrow> Inr (if amt \<noteq> Fin 0 then pos # ps else ps))))"

definition view_account_menu :: "runtime \<Rightarrow> unit prog" where
  "view_account_menu rt =
     try_except
       (bind (get_account_info rt) (\<lambda>(account_info, account_positions).
        bind (py_print (ShowAccount account_info)) (\<lambda>u.
        bind (lift (open_positions rt
                      (case account_positions of None \<Rightarrow> [] | Some ps \<Rightarrow> ps))) (\<lambda>positions.
          if positions \<noteq> []
          then bind (py_print (Say ''Open Positions'')) (\<lambda>u.
               for_each
                 (\<lambda>pos. bind (lift (getitems pos [''symbol'', ''positionAmt'', ''unrealizedProfit'']))
                           (\<lambda>vs. py_print (ShowFields vs)))
                 positions)
          else ret ()))))
       (\<lambda>e. py_print (ShowErrorIn ''Error getting account info'' e))"

definition view_orders_menu :: "runtime \<Rightarrow> unit prog" where
  "view_orders_menu rt =
     try_except
       (bind (get_open_orders rt None) (\<lambda>orders.
          if orders = [] then py_print (Say ''No open orders found.'')
          else bind (py_print (Say ''OPEN ORDERS'')) (\<lambda>u.
               for_each
                 (\<lambda>order.
                    bind (lift (getitems order [''orderId'', ''symbol'', ''side'', ''type''])) (\<lambda>vs.
                    bind (py_print (ShowFields vs)) (\<lambda>u.
                    bind (lift (getitems order [''origQty'', ''price'', ''status''])) (\<lambda>ws.
                    py_print (ShowFields ws)))))
                 orders)))
       (\<lambda>e. py_print (ShowErrorIn ''Error getting orders'' e))"

text \<open>
  The \<open>if\<close>/\<open>elif\<close> chain of the menu loop: what a choice runs before the loop
  goes on, or \<open>None\<close> for choice 6, which leaves the loop.
\<close>

definition main_menu_choice :: "runtime \<Rightarrow> string \<Rightarrow> unit prog option" where
  "main_menu_choice rt choice =
     (if choice = ''1'' then Some (market_order_menu rt)
      else if choice = ''2'' then Some (limit_order_menu rt)
      else if choice = ''3'' then Some (stop_limit_order_menu rt)
      else if choice = ''4'' then Some (view_account_menu rt)
      else if choice = ''5'' then Some (view_orders_menu rt)
      else if choice = ''6'' then None
      else Some (py_print (Say ''Invalid option. Please try again.'')))"

subsection \<open>The menu loop\<close>

text \<open>
  The loop of \<open>main_menu\<close> reads a choice on every round, so it ends when standard
  input does: no program of the model gives lines back to standard input.
\<close>

definition consumes :: "'a prog \<Rightarrow> bool" where
  "consumes m = (\<forall>s. length (stdin (snd (m s))) \<le> length (stdin s))"

lemma consumes_ret: "consumes (ret x)"
  by (simp add: consumes_def ret_def)

lemma consumes_throw: "consumes (throw e)"
  by (simp add: consumes_def throw_def)

lemma consumes_lift: "consumes (lift r)"
  by (simp add: consumes_def lift_def)

lemma consumes_print: "consumes (py_print x)"
  by (simp add: consumes_def py_print_def)

lemma consumes_input: "consumes (py_input p)"
  by (simp add: consumes_def py_input_def split: list.splits)

lemma consumes_client_call: "consumes (client_call c a)"
  by (simp add: consumes_def client_call_def)

lemma consumes_bind: "consumes m \<Longrightarrow> (\<And>x. consumes (f x)) \<Longrightarrow> consumes (bind m f)"
  unfolding consumes_def bind_def
  by (auto split: prod.splits sum.splits) (metis order_trans snd_conv)+

lemma consumes_try: "consumes m \<Longrightarrow> (\<And>e. consumes (h e)) \<Longrightarrow> consumes (try_except m h)"
  unfolding consumes_def try_except_def
  by (auto split: prod.splits sum.splits) (metis order_trans snd_conv)+

lemma consumes_if: "consumes a \<Longrightarrow> consumes b \<Longrightarrow> consumes (if c then a else b)"
  by simp

lemma consumes_case_prod: "(\<And>a b. consumes (f a b)) \<Longrightarrow> consumes (case_prod f p)"
  by (cases p) simp

lemma consumes_case_option:
  "consumes a \<Longrightarrow> (\<And>x. consumes (f x)) \<Longrightarrow> consumes (case_option a f v)"
  by (cases v) simp_all

lemma consumes_for_each: "(\<And>d. consumes (body d)) \<Longrightarrow> consumes (for_each body ds)"
  unfolding consumes_def
proof (induction ds)
  case Nil
  then show ?case by simp
next
  case (Cons d ds)
  show ?case
  proof
    fix s
    obtain r s' where b: "body d s = (r, s')" by (cases "body d s")
    have le1: "length (stdin s') \<le> length (stdin s)"
      using Cons.prems [of d] b by (metis snd_conv)
    show "length (stdin (snd (for_each body (d # ds) s))) \<le> length (stdin s)"
    proof (cases r)
      case (Inl e)
      then show ?thesis using b le1 by simp
    next
      case (Inr u)
      have "length (stdin (snd (for_each body ds s'))) \<le> length (stdin s')"
        using Cons.IH Cons.prems by blast
      then show ?thesis using b Inr le1 by simp
    qed
  qed
qed

lemmas consumes_intros =
  consumes_ret consumes_throw consumes_lift consumes_print consumes_input
  consumes_client_call consumes_bind consumes_try consumes_if consumes_case_prod
  consumes_case_option consumes_for_each

lemma consumes_market_order_menu: "consumes (market_order_menu rt)"
  unfolding market_order_menu_def input_strip_def input_strip_lower_def get_current_price_def
    place_market_order_def create_order_def display_order_details_def
  by (intro consumes_intros)

lemma consumes_limit_order_menu: "consumes (limit_order_menu rt)"
  unfolding limit_order_menu_def input_strip_def input_strip_lower_def get_current_price_def
    place_limit_order_def create_order_def display_order_details_def
  by (intro consumes_intros)

lemma consumes_stop_limit_order_menu: "consumes (stop_limit_order_menu rt)"
  unfolding stop_limit_order_menu_def input_strip_def input_strip_lower_def
    get_current_price_def place_stop_limit_order_def create_order_def
    display_order_details_def
  by (intro consumes_intros)

lemma consumes_view_account_menu: "consumes (view_account_menu rt)"
  unfolding view_account_menu_def get_account_info_def
  by (intro consumes_intros)

lemma consumes_view_orders_menu: "consumes (view_orders_menu rt)"
  unfolding view_orders_menu_def get_open_orders_def
  by (intro consumes_intros)

lemma consumes_main_menu_choice:
  "main_menu_choice rt choice = Some act \<Longrightarrow> consumes act"
  unfolding main_menu_choice_def
  by (auto split: if_splits
      intro: consumes_market_order_menu consumes_limit_order_menu
        consumes_stop_limit_order_menu consumes_view_account_menu consumes_view_orders_menu
        consumes_print)

function main_menu_loop :: "runtime \<Rightarrow> unit prog" where
  "main_menu_loop rt s =
     (case bind (py_print (Say ''BINANCE FUTURES TRADING BOT'')) (\<lambda>u. input_strip rt AskChoice) s of
        (Inl e, s1) \<Rightarrow> (Inl e, s1)
      | (Inr choice, s1) \<Rightarrow>
          (case main_menu_choice rt choice of
             None \<Rightarrow> py_print (Say ''Goodbye!'') s1
           | Some act \<Rightarrow>
               (case act s1 of
                  (Inl e, s2) \<Rightarrow> (Inl e, s2)
                | (Inr u, s2) \<Rightarrow> main_menu_loop rt s2)))"
  by pat_completeness auto
termination main_menu_loop
proof (relation "measure (\<lambda>(rt, s). length (stdin s))")
  show "wf (measure (\<lambda>(rt, s). length (stdin s)))" by simp
next
  fix rt :: runtime and s s1 s2 :: io and x choice act y u
  assume rd: "(x, s1) =
      bind (py_print (Say ''BINANCE FUTURES TRADING BOT'')) (\<lambda>u. input_strip rt AskChoice) s"
    and x: "x = Inr choice"
    and ch: "main_menu_choice rt choice = Some act"
    and run: "(y, s2) = act s1"
    and "y = Inr u"
  have "length (stdin s1) < length (stdin s)"
    using rd x
    by (auto simp: bind_def py_print_def input_strip_def py_input_def ret_def
        split: list.splits)
  moreover have "length (stdin s2) \<le> length (stdin s1)"
    using consumes_main_menu_choice [OF ch] run unfolding consumes_def by (metis snd_conv)
  ultimately show "((rt, s2), (rt, s)) \<in> measure (\<lambda>(rt, s). length (stdin s))"
    by simp
qed

definition main_menu :: "runtime \<Rightarrow> unit prog" where
  "main_menu rt =
     bind (setup_bot rt) (\<lambda>ok. if \<not> ok then ret () else main_menu_loop rt)"

section \<open>main\<close>

text \<open>
  The namespace the argument parser returns. \<open>--side\<close> and \<open>--type\<close> are restricted
  by \<open>choices\<close>, \<open>--quantity\<close>, \<open>--price\<close> and \<open>--stop-price\<close> are converted by
  \<open>float\<close>; a flag that was not given is \<open>None\<close>.
\<close>

record args =
  arg_symbol :: "string option"
  arg_side :: "string option"
  arg_type :: "string option"
  arg_quantity :: "pyfloat option"
  arg_price :: "pyfloat option"
  arg_stop_price :: "pyfloat option"

text \<open>
  The parser defines the six options above and no other, so the namespace has no
  attribute \<open>api_key\<close> or \<open>api_secret\<close>: reading one raises \<open>AttributeError\<close>.
\<close>

definition args_api_key :: "args \<Rightarrow> exn + string" where
  "args_api_key a = Inl (AttributeError ''api_key'')"

definition args_api_secret :: "args \<Rightarrow> exn + string" where
  "args_api_secret a = Inl (AttributeError ''api_secret'')"

text \<open>
  The condition \<open>all([api_key, api_secret, args.symbol, args.side, args.type,
  args.quantity])\<close>, with the four flags it found.
\<close>

definition batch_flags ::
  "(string \<Rightarrow> string option) \<Rightarrow> args \<Rightarrow> (string \<times> string \<times> string \<times> pyfloat) option" where
  "batch_flags getenv a =
     (if str_truthy (getenv ''BINANCE_API_KEY'') \<and> str_truthy (getenv ''BINANCE_API_SECRET'')
      then
        (case arg_symbol a of None \<Rightarrow> None | Some symbol \<Rightarrow>
        (case arg_side a of None \<Rightarrow> None | Some side \<Rightarrow>
        (case arg_type a of None \<Rightarrow> None | Some type \<Rightarrow>
        (case arg_quantity a of None \<Rightarrow> None | Some quantity \<Rightarrow>
           if symbol \<noteq> [] \<and> side \<noteq> [] \<and> type \<noteq> [] \<and> float_truthy quantity
           then Some (symbol, side, type, quantity) else None))))
      else None)"

text \<open>
  The \<open>if\<close>/\<open>elif\<close> chain on the order type. The result \<open>None\<close> is the early
  \<open>return\<close> after a message; with a type that is none of the three, \<open>order\<close> is
  unbound when it is displayed.
\<close>

definition batch_place ::
  "runtime \<Rightarrow> args \<Rightarrow> string \<Rightarrow> string \<Rightarrow> string \<Rightarrow> pyfloat \<Rightarrow> dict option prog" where
  "batch_place rt a symbol side type quantity =
     (if type = ''MARKET''
      then bind (place_market_order rt symbol side quantity) (\<lambda>order. ret (Some order))
      else if type = ''LIMIT''
      then (case arg_price a of
              None \<Rightarrow> bind (py_print (Say ''Price is required for limit orders'')) (\<lambda>u. ret None)
            | Some price \<Rightarrow>
                if \<not> float_truthy price
                then bind (py_print (Say ''Price is required for limit orders'')) (\<lambda>u. ret None)
                else bind (place_limit_order rt symbol side quantity price)
                       (\<lambda>order. ret (Some order)))
      else if type = ''STOP_LIMIT''
      then (case (arg_price a, arg_stop_price a) of
              (Some price, Some stop_price) \<Rightarrow>
                if \<not> float_truthy price \<or> \<not> float_truthy stop_price
                then bind (py_print
                       (Say ''Both price and stop-price are required for stop-limit orders''))
                       (\<lambda>u. ret None)
                else
                  bind (client_call (Futures_symbol_ticker (upper symbol))
                          (\<lambda>h. futures_symbol_ticker rt h (upper symbol))) (\<lambda>ticker.
                  bind (lift (getitem ticker ''price'')) (\<lambda>txt.
                  bind (lift (py_float rt txt)) (\<lambda>current_price.
                  bind (py_print (ShowPrice current_price)) (\<lambda>u.
                    if side = ''BUY'' \<and> float_le stop_price current_price
                    then bind (py_print
                           (Say ''Stop price must be ABOVE current price for a BUY stop-limit order''))
                           (\<lambda>u. ret None)
                    else if side = ''SELL'' \<and> float_ge stop_price current_price
                    then bind (py_print
                           (Say ''Stop price must be BELOW current price for a SELL stop-limit order''))
                           (\<lambda>u. ret None)
                    else bind (place_stop_limit_order rt symbol side quantity stop_price price)
                           (\<lambda>order. ret (Some order))))))
            | _ \<Rightarrow>
                bind (py_print
                  (Say ''Both price and stop-price are required for stop-limit orders''))
                  (\<lambda>u. ret None))
      else throw (UnboundLocalError ''order''))"

definition main :: "runtime \<Rightarrow> (string \<Rightarrow> string option) \<Rightarrow> args \<Rightarrow> unit prog" where
  "main rt getenv a =
     (case batch_flags getenv a of
        Some (symbol, side, type, quantity) \<Rightarrow>
          try_except
            (bind (lift (args_api_key a)) (\<lambda>api_key.
             bind (lift (args_api_secret a)) (\<lambda>api_secret.
             bind (TradingBot rt api_key api_secret) (\<lambda>bot.
             bind (batch_place rt a symbol side type quantity) (\<lambda>placed.
               case placed of
                 None \<Rightarrow> ret ()
               | Some order \<Rightarrow> display_order_details order)))))
            (\<lambda>e. py_print (ShowError e))
      | None \<Rightarrow> main_menu rt)"

section \<open>Observing a run\<close>

text \<open>
  The order submissions among the calls made on the client, oldest first.
\<close>

fun submissions :: "call list \<Rightarrow> params list" where
  "submissions [] = []"
| "submissions (Futures_create_order ps # cs) = ps # submissions cs"
| "submissions (c # cs) = submissions cs"

text \<open>
  What \<open>get_current_price\<close> returns when the calls made so far are \<open>h\<close>, what a
  \<open>place_..._order\<close> method returns for an answer of the exchange, and the line a menu
  prints for it. The lemmas \<open>get_current_price_run\<close> and \<open>create_order_run\<close> below
  tie them to the methods.
\<close>

definition reference_price :: "runtime \<Rightarrow> call list \<Rightarrow> string \<Rightarrow> exn + pyfloat" where
  "reference_price rt h symbol =
     (case futures_symbol_ticker rt h (upper symbol) of
        Inl e \<Rightarrow> Inl e
      | Inr ticker \<Rightarrow>
          (case getitem ticker ''price'' of Inl e \<Rightarrow> Inl e | Inr txt \<Rightarrow> py_float rt txt))"

definition order_reply :: "exn + dict \<Rightarrow> exn + dict" where
  "order_reply r =
     (case r of
        Inl e \<Rightarrow> Inl e
      | Inr order \<Rightarrow>
          (case getitem order ''orderId'' of
             Inl e \<Rightarrow> Inl e
           | Inr i \<Rightarrow> (case getitem order ''status'' of Inl e \<Rightarrow> Inl e | Inr st \<Rightarrow> Inr order)))"

definition show_result :: "exn + dict \<Rightarrow> out" where
  "show_result r = (case r of Inl e \<Rightarrow> ShowError e | Inr order \<Rightarrow> ShowOrder order)"

text \<open>\<open>float(txt)\<close> raises, or gives a value \<open>v\<close> with \<open>v <= 0\<close>.\<close>

definition not_positive :: "runtime \<Rightarrow> string \<Rightarrow> bool" where
  "not_positive rt txt =
     (case float_of_str rt txt of None \<Rightarrow> True | Some v \<Rightarrow> float_le v (Fin 0))"

text \<open>The state a run starts in.\<close>

definition start :: "string list \<Rightarrow> io" where
  "start lines = \<lparr>stdin = lines, printed = [], calls = []\<rparr>"

subsection \<open>A sample environment\<close>

text \<open>
  Python's \<open>strip()\<close> and \<open>lower()\<close> as they act on ASCII text (the examples use no
  other): the ASCII whitespace characters are removed at both ends, the 26 upper-case
  letters are folded.
\<close>

definition ascii_space :: "char \<Rightarrow> bool" where
  "ascii_space c = (c \<in> set [CHR '' '', CHR 0x09, CHR 0x0A, CHR 0x0B, CHR 0x0C, CHR 0x0D,
                               CHR 0x1C, CHR 0x1D, CHR 0x1E, CHR 0x1F])"

definition strip_ascii :: "string \<Rightarrow> string" where
  "strip_ascii s = rev (dropWhile ascii_space (rev (dropWhile ascii_space s)))"

definition lower_char :: "char \<Rightarrow> char" where
  "lower_char c = (case map_of (zip ascii_uppercase ascii_lowercase) c of
                     Some d \<Rightarrow> d | None \<Rightarrow> c)"

definition lower_ascii :: "string \<Rightarrow> string" where
  "lower_ascii s = map lower_char s"

text \<open>
  Python's \<open>float()\<close> on the texts the examples use, and an exchange that lists
  BTCUSDT as trading and ETHUSDT as settling, quotes 200 for every symbol and
  acknowledges every order. \<open>rejecting\<close> is the same exchange refusing every order.
\<close>

definition float_examples :: "string \<Rightarrow> pyfloat option" where
  "float_examples =
     map_of [(''1'', Fin 1), (''0'', Fin 0), (''-1'', Fin (- 1)), (''0.01'', Fin (1 / 100)),
             (''100'', Fin 100), (''200'', Fin 200), (''300'', Fin 300), (''nan'', NaN)]"

definition testnet :: runtime where
  "testnet =
     \<lparr>float_of_str = float_examples,
      str_strip = strip_ascii,
      str_lower = lower_ascii,
      client_new = (\<lambda>h key secret. None),
      futures_account = (\<lambda>h. Inr ([(''totalWalletBalance'', ''1000'')], None)),
      futures_exchange_info =
        (\<lambda>h. Inr [[(''symbol'', ''BTCUSDT''), (''status'', ''TRADING'')],
                  [(''symbol'', ''ETHUSDT''), (''status'', ''SETTLING'')]]),
      futures_symbol_ticker = (\<lambda>h name. Inr [(''symbol'', name), (''price'', ''200'')]),
      futures_create_order = (\<lambda>h ps. Inr [(''orderId'', ''1''), (''status'', ''NEW'')]),
      futures_get_open_orders = (\<lambda>h name. Inr [])\<rparr>"

definition rejecting :: runtime where
  "rejecting =
     testnet\<lparr>futures_create_order :=
       (\<lambda>h ps. Inl (BinanceAPIException ''Margin is insufficient.''))\<rparr>"

definition no_env :: "string \<Rightarrow> string option" where
  "no_env name = None"

definition full_env :: "string \<Rightarrow> string option" where
  "full_env =
     map_of [(''BINANCE_API_KEY'', ''key''), (''BINANCE_API_SECRET'', ''secret'')]"

definition no_args :: args where
  "no_args =
     \<lparr>arg_symbol = None, arg_side = None, arg_type = None, arg_quantity = None,
      arg_price = None, arg_stop_price = None\<rparr>"

definition market_args :: "pyfloat \<Rightarrow> args" where
  "market_args quantity =
     \<lparr>arg_symbol = Some ''BTCUSDT'', arg_side = Some ''BUY'', arg_type = Some ''MARKET'',
      arg_quantity = Some quantity, arg_price = None, arg_stop_price = None\<rparr>"

section \<open>Lemmas about single steps\<close>

lemmas prog_defs =
  bind_def ret_def throw_def lift_def try_except_def py_print_def py_input_def
  client_call_def input_strip_def input_strip_lower_def

lemma get_current_price_run:
  "get_current_price rt symbol s =
     (reference_price rt (calls s) symbol,
      s\<lparr>calls := calls s @ [Futures_symbol_ticker (upper symbol)]\<rparr>)"
  by (simp add: get_current_price_def reference_price_def prog_defs split: sum.splits)

lemma create_order_run:
  "create_order rt ps s =
     (order_reply (futures_create_order rt (calls s) ps),
      s\<lparr>calls := calls s @ [Futures_create_order ps]\<rparr>)"
  by (simp add: create_order_def order_reply_def prog_defs split: sum.splits)

lemma try_except_throw: "try_except m throw = m"
  by (rule ext) (simp add: try_except_def throw_def split: prod.splits sum.splits)

lemma market_order_menu_run:
  assumes "stdin s = symbol # side # quantity # answer # rest"
    and "validate_inputs rt (str_strip rt symbol) (str_strip rt side) (str_strip rt quantity) = Inr (sy, sd, qty)"
    and "reference_price rt (calls s) sy = Inr p"
  shows "market_order_menu rt s =
     (Inr (),
      if str_lower rt (str_strip rt answer) = ''y''
      then s\<lparr>stdin := rest,
             printed := printed s @
               [Say ''MARKET ORDER'', Prompt AskSymbol, Prompt AskSide, Prompt AskQuantity,
                ShowPrice p, Prompt AskConfirm,
                show_result (order_reply (futures_create_order rt
                   (calls s @ [Futures_symbol_ticker (upper sy)])
                   (market_order_params sy sd qty)))],
             calls := calls s @
               [Futures_symbol_ticker (upper sy),
                Futures_create_order (market_order_params sy sd qty)]\<rparr>
      else s\<lparr>stdin := rest,
             printed := printed s @
               [Say ''MARKET ORDER'', Prompt AskSymbol, Prompt AskSide, Prompt AskQuantity,
                ShowPrice p, Prompt AskConfirm, Say ''Order cancelled.''],
             calls := calls s @ [Futures_symbol_ticker (upper sy)]\<rparr>)"
  using assms
  by (simp add: market_order_menu_def place_market_order_def try_except_throw
      get_current_price_run create_order_run display_order_details_def show_result_def
      prog_defs split: sum.splits)



lemma limit_order_menu_run:
  assumes "stdin s = symbol # side # quantity # price # answer # rest"
    and "validate_inputs rt (str_strip rt symbol) (str_strip rt side) (str_strip rt quantity) = Inr (sy, sd, qty)"
    and "float_of_str rt (str_strip rt price) = Some limit_price"
    and "\<not> float_le limit_price (Fin 0)"
    and "reference_price rt (calls s) sy = Inr p"
  shows "limit_order_menu rt s =
     (Inr (),
      if str_lower rt (str_strip rt answer) = ''y''
      then s\<lparr>stdin := rest,
             printed := printed s @
               [Say ''LIMIT ORDER'', Prompt AskSymbol, Prompt AskSide, Prompt AskQuantity,
                Prompt AskPrice, ShowPrice p, Prompt AskConfirm,
                show_result (order_reply (futures_create_order rt
                   (calls s @ [Futures_symbol_ticker (upper sy)])
                   (limit_order_params sy sd qty limit_price)))],
             calls := calls s @
               [Futures_symbol_ticker (upper sy),
                Futures_create_order (limit_order_params sy sd qty limit_price)]\<rparr>
      else s\<lparr>stdin := rest,
             printed := printed s @
               [Say ''LIMIT ORDER'', Prompt AskSymbol, Prompt AskSide, Prompt AskQuantity,
                Prompt AskPrice, ShowPrice p, Prompt AskConfirm, Say ''Order cancelled.''],
             calls := calls s @ [Futures_symbol_ticker (upper sy)]\<rparr>)"
  using assms
  by (simp add: limit_order_menu_def place_limit_order_def try_except_throw
      get_current_price_run create_order_run display_order_details_def show_result_def
      py_float_def except_ValueError_def prog_defs split: sum.splits)

lemma stop_limit_order_menu_run:
  assumes "stdin s = symbol # side # quantity # stop_price # limit_price # answer # rest"
    and "validate_inputs rt (str_strip rt symbol) (str_strip rt side) (str_strip rt quantity) = Inr (sy, sd, qty)"
    and "float_of_str rt (str_strip rt stop_price) = Some stop_px"
    and "float_of_str rt (str_strip rt limit_price) = Some limit_px"
    and "\<not> float_le stop_px (Fin 0)"
    and "\<not> float_le limit_px (Fin 0)"
    and "reference_price rt (calls s) sy = Inr p"
  shows "stop_limit_order_menu rt s =
     (Inr (),
      if str_lower rt (str_strip rt answer) = ''y''
      then s\<lparr>stdin := rest,
             printed := printed s @
               [Say ''STOP-LIMIT ORDER'', Prompt AskSymbol, Prompt AskSide, Prompt AskQuantity,
                Prompt AskStopPrice, Prompt AskLimitPrice, ShowPrice p, Prompt AskConfirm,
                show_result (order_reply (futures_create_order rt
                   (calls s @ [Futures_symbol_ticker (upper sy)])
                   (stop_limit_order_params sy sd qty stop_px limit_px)))],
             calls := calls s @
               [Futures_symbol_ticker (upper sy),
                Futures_create_order (stop_limit_order_params sy sd qty stop_px limit_px)]\<rparr>
      else s\<lparr>stdin := rest,
             printed := printed s @
               [Say ''STOP-LIMIT ORDER'', Prompt AskSymbol, Prompt AskSide, Prompt AskQuantity,
                Prompt AskStopPrice, Prompt AskLimitPrice, ShowPrice p, Prompt AskConfirm,
                Say ''Order cancelled.''],
             calls := calls s @ [Futures_symbol_ticker (upper sy)]\<rparr>)"
  using assms
  by (simp add: stop_limit_order_menu_def place_stop_limit_order_def try_except_throw
      get_current_price_run create_order_run display_order_details_def show_result_def
      py_float_def except_ValueError_def prog_defs split: sum.splits)

text \<open>Validation failures: the error is printed and the client is not called.\<close>

lemma market_order_menu_invalid:
  assumes "stdin s = symbol # side # quantity # rest"
    and "validate_inputs rt (str_strip rt symbol) (str_strip rt side) (str_strip rt quantity) = Inl e"
  shows "market_order_menu rt s =
     (Inr (),
      s\<lparr>stdin := rest,
        printed := printed s @
          [Say ''MARKET ORDER'', Prompt AskSymbol, Prompt AskSide, Prompt AskQuantity,
           ShowError e]\<rparr>)"
  using assms by (simp add: market_order_menu_def prog_defs)

lemma limit_order_menu_invalid:
  assumes "stdin s = symbol # side # quantity # price # rest"
    and "validate_inputs rt (str_strip rt symbol) (str_strip rt side) (str_strip rt quantity) = Inl e"
  shows "limit_order_menu rt s =
     (Inr (),
      s\<lparr>stdin := rest,
        printed := printed s @
          [Say ''LIMIT ORDER'', Prompt AskSymbol, Prompt AskSide, Prompt AskQuantity,
           Prompt AskPrice, ShowError e]\<rparr>)"
  using assms by (simp add: limit_order_menu_def prog_defs)

lemma stop_limit_order_menu_invalid:
  assumes "stdin s = symbol # side # quantity # stop_price # limit_price # rest"
    and "validate_inputs rt (str_strip rt symbol) (str_strip rt side) (str_strip rt quantity) = Inl e"
  shows "stop_limit_order_menu rt s =
     (Inr (),
      s\<lparr>stdin := rest,
        printed := printed s @
          [Say ''STOP-LIMIT ORDER'', Prompt AskSymbol, Prompt AskSide, Prompt AskQuantity,
           Prompt AskStopPrice, Prompt AskLimitPrice, ShowError e]\<rparr>)"
  using assms by (simp add: stop_limit_order_menu_def prog_defs)

lemma validate_inputs_quantity:
  assumes "symbol \<noteq> []" and "upper side \<in> set [''BUY'', ''SELL'']"
    and "not_positive rt quantity"
  shows "validate_inputs rt symbol side quantity = Inl (ValueError ''Invalid quantity format'')"
  using assms
  by (auto simp: validate_inputs_def not_positive_def py_float_def except_ValueError_def
      split: option.splits)

lemma limit_order_menu_bad_price:
  assumes "stdin s = symbol # side # quantity # price # rest"
    and "validate_inputs rt (str_strip rt symbol) (str_strip rt side) (str_strip rt quantity) = Inr (sy, sd, qty)"
    and "not_positive rt (str_strip rt price)"
  shows "limit_order_menu rt s =
     (Inr (),
      s\<lparr>stdin := rest,
        printed := printed s @
          [Say ''LIMIT ORDER'', Prompt AskSymbol, Prompt AskSide, Prompt AskQuantity,
           Prompt AskPrice, ShowError (ValueError ''Invalid price format'')]\<rparr>)"
  using assms
  by (auto simp: limit_order_menu_def not_positive_def py_float_def except_ValueError_def
      prog_defs split: option.splits)

lemma stop_limit_order_menu_bad_price:
  assumes "stdin s = symbol # side # quantity # stop_price # limit_price # rest"
    and "validate_inputs rt (str_strip rt symbol) (str_strip rt side) (str_strip rt quantity) = Inr (sy, sd, qty)"
    and "not_positive rt (str_strip rt stop_price) \<or> not_positive rt (str_strip rt limit_price)"
  shows "stop_limit_order_menu rt s =
     (Inr (),
      s\<lparr>stdin := rest,
        printed := printed s @
          [Say ''STOP-LIMIT ORDER'', Prompt AskSymbol, Prompt AskSide, Prompt AskQuantity,
           Prompt AskStopPrice, Prompt AskLimitPrice,
           ShowError (ValueError ''Invalid price format'')]\<rparr>)"
  using assms
  by (auto simp: stop_limit_order_menu_def not_positive_def py_float_def except_ValueError_def
      prog_defs split: option.splits)

lemma sample_strings:
  "str_strip testnet = strip_ascii" "str_lower testnet = lower_ascii"
  "str_strip rejecting = strip_ascii" "str_lower rejecting = lower_ascii"
  by (simp_all add: testnet_def rejecting_def)

lemmas string_defs =
  sample_strings strip_ascii_def ascii_space_def upper_def lower_ascii_def upper_char_def
  lower_char_def ascii_lowercase_def ascii_uppercase_def

lemma submissions_append: "submissions (xs @ ys) = submissions xs @ submissions ys"
  by (induction xs rule: submissions.induct) simp_all

subsection \<open>The sample environment\<close>

text \<open>Evaluating the sample environment.\<close>

lemma float_examples_simps:
  "float_of_str testnet ''1'' = Some (Fin 1)"
  "float_of_str testnet ''0'' = Some (Fin 0)"
  "float_of_str testnet ''-1'' = Some (Fin (- 1))"
  "float_of_str testnet ''100'' = Some (Fin 100)"
  "float_of_str testnet ''200'' = Some (Fin 200)"
  "float_of_str testnet ''300'' = Some (Fin 300)"
  "float_of_str testnet ''nan'' = Some NaN"
  "float_of_str testnet ''abc'' = None"
  by (simp_all add: testnet_def float_examples_def)

lemma client_new_testnet: "client_new testnet h key secret = None"
  by (simp add: testnet_def)

lemma reference_price_testnet: "reference_price testnet h symbol = Inr (Fin 200)"
  by (simp add: reference_price_def testnet_def getitem_def py_float_def float_examples_def)

lemma validate_inputs_stripped_sample:
  "validate_inputs testnet (str_strip testnet ''BTCUSDT'') (str_strip testnet ''buy'') (str_strip testnet ''1'') =
     Inr (''BTCUSDT'', ''BUY'', Fin 1)"
  by (simp add: validate_inputs_def py_float_def except_ValueError_def float_examples_simps
      string_defs)

lemma rejecting_simps:
  "float_of_str rejecting = float_of_str testnet"
  "str_strip rejecting = str_strip testnet"
  "str_lower rejecting = str_lower testnet"
  "reference_price rejecting h symbol = Inr (Fin 200)"
  "validate_inputs rejecting = validate_inputs testnet"
  "futures_create_order rejecting h ps = Inl (BinanceAPIException ''Margin is insufficient.'')"
  by (simp_all add: rejecting_def reference_price_def testnet_def getitem_def py_float_def
      float_examples_def validate_inputs_def fun_eq_iff)


lemma strip_samples:
  "str_strip testnet ''BTCUSDT'' = ''BTCUSDT''" "str_strip testnet ''buy'' = ''buy''" "str_strip testnet ''1'' = ''1''"
  "str_strip testnet ''100'' = ''100''" "str_strip testnet ''300'' = ''300''"
  by (simp_all add: string_defs)

lemma validate_inputs_sample:
  "validate_inputs testnet ''BTCUSDT'' ''buy'' ''1'' = Inr (''BTCUSDT'', ''BUY'', Fin 1)"
  by (simp add: validate_inputs_def py_float_def except_ValueError_def float_examples_simps
      string_defs)

lemmas sample_simps =
  start_def strip_samples validate_inputs_sample float_examples_simps
  reference_price_testnet rejecting_simps show_result_def order_reply_def

section \<open>The order builder\<close>

text \<open>
  C5. The parameters sent to the exchange are a function of the order request alone:
  whatever the exchange and the state of the run, \<open>place_market_order\<close>,
  \<open>place_limit_order\<close> and \<open>place_stop_limit_order\<close> make one submission whose
  parameters are \<open>market_order_params\<close>, \<open>limit_order_params\<close> and
  \<open>stop_limit_order_params\<close> of their arguments. The market parameters are symbol,
  side, type and quantity, with no \<open>price\<close> and no \<open>stopPrice\<close>; the limit and the
  stop-limit parameters carry \<open>timeInForce\<close> GTC; the stop-limit order is sent with
  type STOP.
\<close>

theorem order_builder_pure:
  "calls (snd (place_market_order rt symbol side quantity s)) =
     calls s @ [Futures_create_order (market_order_params symbol side quantity)]
   \<and> calls (snd (place_limit_order rt symbol side quantity price s)) =
     calls s @ [Futures_create_order (limit_order_params symbol side quantity price)]
   \<and> calls (snd (place_stop_limit_order rt symbol side quantity stop_price price s)) =
     calls s @
       [Futures_create_order (stop_limit_order_params symbol side quantity stop_price price)]
   \<and> map fst (market_order_params symbol side quantity) =
       [''symbol'', ''side'', ''type'', ''quantity'']
   \<and> map_of (market_order_params symbol side quantity) ''price'' = None
   \<and> map_of (market_order_params symbol side quantity) ''stopPrice'' = None
   \<and> map_of (limit_order_params symbol side quantity price) ''timeInForce'' = Some (Str ''GTC'')
   \<and> map_of (stop_limit_order_params symbol side quantity stop_price price) ''timeInForce'' =
       Some (Str ''GTC'')
   \<and> map_of (stop_limit_order_params symbol side quantity stop_price price) ''type'' =
       Some (Str ''STOP'')"
  by (simp add: place_market_order_def place_limit_order_def place_stop_limit_order_def
      try_except_throw create_order_run market_order_params_def limit_order_params_def
      stop_limit_order_params_def TIME_IN_FORCE_GTC_def)

section \<open>The input validator\<close>

text \<open>
  C10. When the quantity text parses to a number that is zero or negative (the symbol
  being given and the side valid), \<open>validate_inputs\<close> raises the error of a parse
  failure, "Invalid quantity format": the \<open>ValueError\<close> "Quantity must be positive"
  raised inside the \<open>try\<close> block is caught by its own handler. No call of
  \<open>validate_inputs\<close> ever returns the positivity message.
\<close>

theorem positivity_message_hidden:
  assumes "symbol \<noteq> []"
    and "upper side \<in> set [''BUY'', ''SELL'']"
    and "float_of_str rt quantity = Some qty"
    and "float_le qty (Fin 0)"
  shows "validate_inputs rt symbol side quantity = Inl (ValueError ''Invalid quantity format'')
    \<and> (\<forall>s d q. validate_inputs rt s d q \<noteq> Inl (ValueError ''Quantity must be positive''))"
proof
  show "validate_inputs rt symbol side quantity = Inl (ValueError ''Invalid quantity format'')"
    using assms
    by (simp add: validate_inputs_def py_float_def except_ValueError_def)
next
  show "\<forall>s d q. validate_inputs rt s d q \<noteq> Inl (ValueError ''Quantity must be positive'')"
    by (auto simp: validate_inputs_def py_float_def except_ValueError_def side_message_def
        split: option.splits if_splits)
qed

theorem positivity_message_hidden_witness:
  "''BTCUSDT'' \<noteq> []
   \<and> upper ''buy'' \<in> set [''BUY'', ''SELL'']
   \<and> float_of_str testnet ''-1'' = Some (Fin (- 1))
   \<and> float_le (Fin (- 1)) (Fin 0)
   \<and> validate_inputs testnet ''BTCUSDT'' ''buy'' ''-1'' =
       Inl (ValueError ''Invalid quantity format'')
   \<and> (\<forall>s d q. validate_inputs testnet s d q \<noteq> Inl (ValueError ''Quantity must be positive''))"
proof -
  have a: "''BTCUSDT'' \<noteq> []" by simp
  have b: "upper ''buy'' \<in> set [''BUY'', ''SELL'']" by (simp add: string_defs)
  have c: "float_of_str testnet ''-1'' = Some (Fin (- 1))"
    by (simp add: testnet_def float_examples_def)
  have d: "float_le (Fin (- 1)) (Fin 0)" by simp
  show ?thesis using positivity_message_hidden [OF a b c d] a b c d by simp
qed

section \<open>The confirmation gate\<close>

text \<open>
  In the three statements below a menu has reached its confirmation prompt: standard
  input holds the lines the menu reads (symbol, side, quantity, the prices of the order
  type, then the answer), \<open>validate_inputs\<close> accepted them, the prices parsed to
  positive numbers, and the reference price was fetched. The answer is stripped and
  lowercased by \<open>str_strip\<close> and \<open>str_lower\<close> of the run-time environment, that is, by
  whatever Python's \<open>strip()\<close> and \<open>lower()\<close> do: the statements hold for every such
  pair of functions.
\<close>



text \<open>
  C6. In each interactive order menu, when the operator declines at the confirmation
  prompt (any answer that is not "y" after stripping and lowercasing), no order is
  submitted, the menu prints "Order cancelled." last and returns normally, and it has
  read nothing after the answer: the order is dropped, not asked for again.
\<close>

theorem decline_aborts:
  "(stdin s_m = symbol_m # side_m # quantity_m # answer_m # rest_m
    \<and> validate_inputs rt (str_strip rt symbol_m) (str_strip rt side_m) (str_strip rt quantity_m) = Inr (sy_m, sd_m, qty_m)
    \<and> reference_price rt (calls s_m) sy_m = Inr p_m
    \<and> str_lower rt (str_strip rt answer_m) \<noteq> ''y''
    \<longrightarrow> fst (market_order_menu rt s_m) = Inr ()
      \<and> submissions (calls (snd (market_order_menu rt s_m))) = submissions (calls s_m)
      \<and> last (printed (snd (market_order_menu rt s_m))) = Say ''Order cancelled.''
      \<and> stdin (snd (market_order_menu rt s_m)) = rest_m)
   \<and> (stdin s_l = symbol_l # side_l # quantity_l # price_l # answer_l # rest_l
    \<and> validate_inputs rt (str_strip rt symbol_l) (str_strip rt side_l) (str_strip rt quantity_l) = Inr (sy_l, sd_l, qty_l)
    \<and> float_of_str rt (str_strip rt price_l) = Some limit_price_l
    \<and> \<not> float_le limit_price_l (Fin 0)
    \<and> reference_price rt (calls s_l) sy_l = Inr p_l
    \<and> str_lower rt (str_strip rt answer_l) \<noteq> ''y''
    \<longrightarrow> fst (limit_order_menu rt s_l) = Inr ()
      \<and> submissions (calls (snd (limit_order_menu rt s_l))) = submissions (calls s_l)
      \<and> last (printed (snd (limit_order_menu rt s_l))) = Say ''Order cancelled.''
      \<and> stdin (snd (limit_order_menu rt s_l)) = rest_l)
   \<and> (stdin s_t = symbol_t # side_t # quantity_t # stop_price_t # limit_price_t # answer_t # rest_t
    \<and> validate_inputs rt (str_strip rt symbol_t) (str_strip rt side_t) (str_strip rt quantity_t) = Inr (sy_t, sd_t, qty_t)
    \<and> float_of_str rt (str_strip rt stop_price_t) = Some stop_px_t
    \<and> float_of_str rt (str_strip rt limit_price_t) = Some limit_px_t
    \<and> \<not> float_le stop_px_t (Fin 0)
    \<and> \<not> float_le limit_px_t (Fin 0)
    \<and> reference_price rt (calls s_t) sy_t = Inr p_t
    \<and> str_lower rt (str_strip rt answer_t) \<noteq> ''y''
    \<longrightarrow> fst (stop_limit_order_menu rt s_t) = Inr ()
      \<and> submissions (calls (snd (stop_limit_order_menu rt s_t))) = submissions (calls s_t)
      \<and> last (printed (snd (stop_limit_order_menu rt s_t))) = Say ''Order cancelled.''
      \<and> stdin (snd (stop_limit_order_menu rt s_t)) = rest_t)"
  by (auto simp: market_order_menu_run limit_order_menu_run stop_limit_order_menu_run
      submissions_append)

theorem decline_aborts_witness:
  "fst (market_order_menu testnet (start [''BTCUSDT'', ''buy'', ''1'', ''n''])) = Inr ()
   \<and> submissions (calls (snd (market_order_menu testnet (start [''BTCUSDT'', ''buy'', ''1'', ''n''])))) = []
   \<and> last (printed (snd (market_order_menu testnet (start [''BTCUSDT'', ''buy'', ''1'', ''n''])))) = Say ''Order cancelled.''
   \<and> stdin (snd (market_order_menu testnet (start [''BTCUSDT'', ''buy'', ''1'', ''n'']))) = []
   \<and> fst (limit_order_menu testnet (start [''BTCUSDT'', ''buy'', ''1'', ''100'', ''yes''])) = Inr ()
   \<and> submissions (calls (snd (limit_order_menu testnet (start [''BTCUSDT'', ''buy'', ''1'', ''100'', ''yes''])))) = []
   \<and> last (printed (snd (limit_order_menu testnet (start [''BTCUSDT'', ''buy'', ''1'', ''100'', ''yes''])))) = Say ''Order cancelled.''
   \<and> stdin (snd (limit_order_menu testnet (start [''BTCUSDT'', ''buy'', ''1'', ''100'', ''yes'']))) = []
   \<and> fst (stop_limit_order_menu testnet (start [''BTCUSDT'', ''buy'', ''1'', ''300'', ''100'', []])) = Inr ()
   \<and> submissions (calls (snd (stop_limit_order_menu testnet (start [''BTCUSDT'', ''buy'', ''1'', ''300'', ''100'', []])))) = []
   \<and> last (printed (snd (stop_limit_order_menu testnet (start [''BTCUSDT'', ''buy'', ''1'', ''300'', ''100'', []])))) = Say ''Order cancelled.''
   \<and> stdin (snd (stop_limit_order_menu testnet (start [''BTCUSDT'', ''buy'', ''1'', ''300'', ''100'', []]))) = []"
proof -
  have a: "str_lower testnet (str_strip testnet ''n'') \<noteq> ''y''" "str_lower testnet (str_strip testnet ''yes'') \<noteq> ''y''"
    "str_lower testnet (str_strip testnet []) \<noteq> ''y''"
    by (simp_all add: string_defs)
  show ?thesis
    using decline_aborts
      [where rt = testnet
      and s_m = "start [''BTCUSDT'', ''buy'', ''1'', ''n'']"
      and symbol_m = "''BTCUSDT''"
      and side_m = "''buy''"
      and quantity_m = "''1''"
      and answer_m = "''n''"
      and rest_m = "[]"
      and sy_m = "''BTCUSDT''"
      and sd_m = "''BUY''"
      and qty_m = "Fin 1"
      and p_m = "Fin 200"
      and price_l = "''100''"
      and limit_price_l = "Fin 100"
      and s_l = "start [''BTCUSDT'', ''buy'', ''1'', ''100'', ''yes'']"
      and symbol_l = "''BTCUSDT''"
      and side_l = "''buy''"
      and quantity_l = "''1''"
      and answer_l = "''yes''"
      and rest_l = "[]"
      and sy_l = "''BTCUSDT''"
      and sd_l = "''BUY''"
      and qty_l = "Fin 1"
      and p_l = "Fin 200"
      and stop_price_t = "''300''"
      and limit_price_t = "''100''"
      and stop_px_t = "Fin 300"
      and limit_px_t = "Fin 100"
      and s_t = "start [''BTCUSDT'', ''buy'', ''1'', ''300'', ''100'', []]"
      and symbol_t = "''BTCUSDT''"
      and side_t = "''buy''"
      and quantity_t = "''1''"
      and answer_t = "[]"
      and rest_t = "[]"
      and sy_t = "''BTCUSDT''"
      and sd_t = "''BUY''"
      and qty_t = "Fin 1"
      and p_t = "Fin 200"] a
    by (simp add: sample_simps)
qed

text \<open>
  C7. In each interactive order menu, once the operator has confirmed, the calls on the
  client are the price lookup followed by exactly one order submission and nothing
  more, whatever the exchange answers: when the submission raises, the error is printed
  and the submission is not repeated.
\<close>

theorem confirmed_submits_once:
  "(stdin s_m = symbol_m # side_m # quantity_m # answer_m # rest_m
    \<and> validate_inputs rt (str_strip rt symbol_m) (str_strip rt side_m) (str_strip rt quantity_m) = Inr (sy_m, sd_m, qty_m)
    \<and> reference_price rt (calls s_m) sy_m = Inr p_m
    \<and> str_lower rt (str_strip rt answer_m) = ''y''
    \<longrightarrow> calls (snd (market_order_menu rt s_m)) =
          calls s_m @ [Futures_symbol_ticker (upper sy_m), Futures_create_order (market_order_params sy_m sd_m qty_m)]
      \<and> length (submissions (calls (snd (market_order_menu rt s_m)))) = Suc (length (submissions (calls s_m)))
      \<and> last (printed (snd (market_order_menu rt s_m))) =
          show_result (order_reply (futures_create_order rt
            (calls s_m @ [Futures_symbol_ticker (upper sy_m)]) (market_order_params sy_m sd_m qty_m))))
   \<and> (stdin s_l = symbol_l # side_l # quantity_l # price_l # answer_l # rest_l
    \<and> validate_inputs rt (str_strip rt symbol_l) (str_strip rt side_l) (str_strip rt quantity_l) = Inr (sy_l, sd_l, qty_l)
    \<and> float_of_str rt (str_strip rt price_l) = Some limit_price_l
    \<and> \<not> float_le limit_price_l (Fin 0)
    \<and> reference_price rt (calls s_l) sy_l = Inr p_l
    \<and> str_lower rt (str_strip rt answer_l) = ''y''
    \<longrightarrow> calls (snd (limit_order_menu rt s_l)) =
          calls s_l @ [Futures_symbol_ticker (upper sy_l), Futures_create_order (limit_order_params sy_l sd_l qty_l limit_price_l)]
      \<and> length (submissions (calls (snd (limit_order_menu rt s_l)))) = Suc (length (submissions (calls s_l)))
      \<and> last (printed (snd (limit_order_menu rt s_l))) =
          show_result (order_reply (futures_create_order rt
            (calls s_l @ [Futures_symbol_ticker (upper sy_l)]) (limit_order_params sy_l sd_l qty_l limit_price_l))))
   \<and> (stdin s_t = symbol_t # side_t # quantity_t # stop_price_t # limit_price_t # answer_t # rest_t
    \<and> validate_inputs rt (str_strip rt symbol_t) (str_strip rt side_t) (str_strip rt quantity_t) = Inr (sy_t, sd_t, qty_t)
    \<and> float_of_str rt (str_strip rt stop_price_t) = Some stop_px_t
    \<and> float_of_str rt (str_strip rt limit_price_t) = Some limit_px_t
    \<and> \<not> float_le stop_px_t (Fin 0)
    \<and> \<not> float_le limit_px_t (Fin 0)
    \<and> reference_price rt (calls s_t) sy_t = Inr p_t
    \<and> str_lower rt (str_strip rt answer_t) = ''y''
    \<longrightarrow> calls (snd (stop_limit_order_menu rt s_t)) =
          calls s_t @ [Futures_symbol_ticker (upper sy_t), Futures_create_order (stop_limit_order_params sy_t sd_t qty_t stop_px_t limit_px_t)]
      \<and> length (submissions (calls (snd (stop_limit_order_menu rt s_t)))) = Suc (length (submissions (calls s_t)))
      \<and> last (printed (snd (stop_limit_order_menu rt s_t))) =
          show_result (order_reply (futures_create_order rt
            (calls s_t @ [Futures_symbol_ticker (upper sy_t)]) (stop_limit_order_params sy_t sd_t qty_t stop_px_t limit_px_t))))"
  by (auto simp: market_order_menu_run limit_order_menu_run stop_limit_order_menu_run
      submissions_append)

theorem confirmed_submits_once_witness:
  "calls (snd (market_order_menu rejecting (start [''BTCUSDT'', ''buy'', ''1'', ''y'']))) =
       [Futures_symbol_ticker ''BTCUSDT'', Futures_create_order (market_order_params ''BTCUSDT'' ''BUY'' (Fin 1))]
   \<and> length (submissions (calls (snd (market_order_menu rejecting (start [''BTCUSDT'', ''buy'', ''1'', ''y'']))))) = 1
   \<and> last (printed (snd (market_order_menu rejecting (start [''BTCUSDT'', ''buy'', ''1'', ''y''])))) = ShowError (BinanceAPIException ''Margin is insufficient.'')
   \<and> calls (snd (limit_order_menu rejecting (start [''BTCUSDT'', ''buy'', ''1'', ''100'', ''Y'']))) =
       [Futures_symbol_ticker ''BTCUSDT'', Futures_create_order (limit_order_params ''BTCUSDT'' ''BUY'' (Fin 1) (Fin 100))]
   \<and> length (submissions (calls (snd (limit_order_menu rejecting (start [''BTCUSDT'', ''buy'', ''1'', ''100'', ''Y'']))))) = 1
   \<and> last (printed (snd (limit_order_menu rejecting (start [''BTCUSDT'', ''buy'', ''1'', ''100'', ''Y''])))) = ShowError (BinanceAPIException ''Margin is insufficient.'')
   \<and> calls (snd (stop_limit_order_menu rejecting (start [''BTCUSDT'', ''buy'', ''1'', ''300'', ''100'', '' y'']))) =
       [Futures_symbol_ticker ''BTCUSDT'', Futures_create_order (stop_limit_order_params ''BTCUSDT'' ''BUY'' (Fin 1) (Fin 300) (Fin 100))]
   \<and> length (submissions (calls (snd (stop_limit_order_menu rejecting (start [''BTCUSDT'', ''buy'', ''1'', ''300'', ''100'', '' y'']))))) = 1
   \<and> last (printed (snd (stop_limit_order_menu rejecting (start [''BTCUSDT'', ''buy'', ''1'', ''300'', ''100'', '' y''])))) = ShowError (BinanceAPIException ''Margin is insufficient.'')"
proof -
  have a: "str_lower rejecting (str_strip rejecting ''y'') = ''y''" "str_lower rejecting (str_strip rejecting ''Y'') = ''y''"
    "str_lower rejecting (str_strip rejecting '' y'') = ''y''" "upper ''BTCUSDT'' = ''BTCUSDT''"
    by (simp_all add: string_defs)
  show ?thesis
    using confirmed_submits_once
      [where rt = rejecting
      and s_m = "start [''BTCUSDT'', ''buy'', ''1'', ''y'']"
      and symbol_m = "''BTCUSDT''"
      and side_m = "''buy''"
      and quantity_m = "''1''"
      and answer_m = "''y''"
      and rest_m = "[]"
      and sy_m = "''BTCUSDT''"
      and sd_m = "''BUY''"
      and qty_m = "Fin 1"
      and p_m = "Fin 200"
      and price_l = "''100''"
      and limit_price_l = "Fin 100"
      and s_l = "start [''BTCUSDT'', ''buy'', ''1'', ''100'', ''Y'']"
      and symbol_l = "''BTCUSDT''"
      and side_l = "''buy''"
      and quantity_l = "''1''"
      and answer_l = "''Y''"
      and rest_l = "[]"
      and sy_l = "''BTCUSDT''"
      and sd_l = "''BUY''"
      and qty_l = "Fin 1"
      and p_l = "Fin 200"
      and stop_price_t = "''300''"
      and limit_price_t = "''100''"
      and stop_px_t = "Fin 300"
      and limit_px_t = "Fin 100"
      and s_t = "start [''BTCUSDT'', ''buy'', ''1'', ''300'', ''100'', '' y'']"
      and symbol_t = "''BTCUSDT''"
      and side_t = "''buy''"
      and quantity_t = "''1''"
      and answer_t = "'' y''"
      and rest_t = "[]"
      and sy_t = "''BTCUSDT''"
      and sd_t = "''BUY''"
      and qty_t = "Fin 1"
      and p_t = "Fin 200"] a
    by (simp add: sample_simps)
qed

section \<open>Startup and the batch path\<close>

lemma main_interactive: "batch_flags getenv a = None \<Longrightarrow> main rt getenv a = main_menu rt"
  by (simp add: main_def)

lemma batch_flags_no_credentials:
  "getenv ''BINANCE_API_KEY'' = None \<or> getenv ''BINANCE_API_SECRET'' = None
   \<Longrightarrow> batch_flags getenv a = None"
  by (auto simp: batch_flags_def str_truthy_def)

lemma setup_bot_no_credentials:
  assumes "stdin s = key_line # secret_line # rest"
    and "str_strip rt key_line = [] \<or> str_strip rt secret_line = []"
  shows "setup_bot rt s =
     (Inr False,
      s\<lparr>stdin := rest,
        printed := printed s @
          [Say ''Binance Futures Trading Bot Setup'', Prompt AskApiKey, Prompt AskApiSecret,
           Say ''API credentials are required!'']\<rparr>)"
  using assms by (auto simp: setup_bot_def prog_defs)

lemma TradingBot_run:
  "TradingBot rt api_key api_secret s =
     (case client_new rt (calls s) api_key api_secret of
        Some e \<Rightarrow> (Inl e, s\<lparr>calls := calls s @ [Client_new api_key api_secret]\<rparr>)
      | None \<Rightarrow>
          (Inr (), s\<lparr>calls := calls s @ [Client_new api_key api_secret, Futures_account]\<rparr>))"
  by (simp add: TradingBot_def test_connection_def prog_defs split: option.splits sum.splits)

lemma setup_bot_connected:
  assumes "stdin s = key_line # secret_line # rest"
    and "str_strip rt key_line \<noteq> []" and "str_strip rt secret_line \<noteq> []"
    and "client_new rt (calls s) (str_strip rt key_line) (str_strip rt secret_line) = None"
  shows "setup_bot rt s =
     (Inr True,
      s\<lparr>stdin := rest,
        printed := printed s @
          [Say ''Binance Futures Trading Bot Setup'', Prompt AskApiKey, Prompt AskApiSecret],
        calls := calls s @ [Client_new (str_strip rt key_line) (str_strip rt secret_line), Futures_account]\<rparr>)"
  using assms by (simp add: setup_bot_def TradingBot_run prog_defs)

lemma main_menu_loop_step:
  assumes "stdin s = line # rest"
    and "main_menu_choice rt (str_strip rt line) = Some act"
    and "act (s\<lparr>stdin := rest,
                printed := printed s @ [Say ''BINANCE FUTURES TRADING BOT'', Prompt AskChoice]\<rparr>)
         = (Inr (), s')"
  shows "main_menu_loop rt s = main_menu_loop rt s'"
  using assms by (subst main_menu_loop.simps) (simp add: prog_defs)

lemma main_menu_loop_exit:
  assumes "stdin s = line # rest" and "str_strip rt line = ''6''"
  shows "main_menu_loop rt s =
     (Inr (),
      s\<lparr>stdin := rest,
        printed := printed s @
          [Say ''BINANCE FUTURES TRADING BOT'', Prompt AskChoice, Say ''Goodbye!'']\<rparr>)"
  using assms by (subst main_menu_loop.simps) (simp add: prog_defs main_menu_choice_def)

text \<open>
  C2. With both credentials in the environment and the flags symbol, side, type and
  quantity given, \<open>main\<close> takes the batch branch and asks for nothing, but the branch
  reads \<open>args.api_key\<close>, an attribute the parser never defines: the \<open>AttributeError\<close>
  is caught and printed, and the run ends before the client is built. No call reaches
  the exchange, so no order is submitted, whatever the flags.
\<close>

theorem batch_mode_never_submits:
  assumes "batch_flags getenv a = Some flags"
  shows "main rt getenv a s =
     (Inr (), s\<lparr>printed := printed s @ [ShowError (AttributeError ''api_key'')]\<rparr>)"
  using assms
  by (cases flags) (simp add: main_def args_api_key_def prog_defs)

theorem batch_mode_never_submits_witness:
  "batch_flags full_env (market_args (Fin (1 / 100))) =
     Some (''BTCUSDT'', ''BUY'', ''MARKET'', Fin (1 / 100))
   \<and> main testnet full_env (market_args (Fin (1 / 100))) (start []) =
     (Inr (), \<lparr>stdin = [], printed = [ShowError (AttributeError ''api_key'')], calls = []\<rparr>)"
proof -
  have a: "batch_flags full_env (market_args (Fin (1 / 100))) =
     Some (''BTCUSDT'', ''BUY'', ''MARKET'', Fin (1 / 100))"
    by (simp add: batch_flags_def full_env_def market_args_def str_truthy_def float_truthy_def)
  show ?thesis
    using batch_mode_never_submits [OF a, of testnet "start []"] a
    by (simp add: start_def)
qed

text \<open>
  C8. When either credential is missing from the environment, \<open>main\<close> does not stop: it
  runs the interactive menu, which asks for the two credentials. There an empty API key
  or secret (after stripping) ends the program at startup: "API credentials are
  required!" is printed, no call is made on the client and no menu is shown.
\<close>

theorem missing_env_credentials_fall_back:
  "(getenv ''BINANCE_API_KEY'' = None \<or> getenv ''BINANCE_API_SECRET'' = None
    \<longrightarrow> main rt getenv a = main_menu rt)
   \<and> (stdin s = key_line # secret_line # rest
    \<and> (str_strip rt key_line = [] \<or> str_strip rt secret_line = [])
    \<longrightarrow> main_menu rt s =
         (Inr (),
          s\<lparr>stdin := rest,
            printed := printed s @
              [Say ''Binance Futures Trading Bot Setup'', Prompt AskApiKey, Prompt AskApiSecret,
               Say ''API credentials are required!'']\<rparr>))"
proof (intro conjI impI)
  assume "getenv ''BINANCE_API_KEY'' = None \<or> getenv ''BINANCE_API_SECRET'' = None"
  then show "main rt getenv a = main_menu rt"
    by (simp add: main_interactive batch_flags_no_credentials)
next
  assume "stdin s = key_line # secret_line # rest
    \<and> (str_strip rt key_line = [] \<or> str_strip rt secret_line = [])"
  then have "setup_bot rt s =
     (Inr False,
      s\<lparr>stdin := rest,
        printed := printed s @
          [Say ''Binance Futures Trading Bot Setup'', Prompt AskApiKey, Prompt AskApiSecret,
           Say ''API credentials are required!'']\<rparr>)"
    by (intro setup_bot_no_credentials) blast+
  then show "main_menu rt s =
     (Inr (),
      s\<lparr>stdin := rest,
        printed := printed s @
          [Say ''Binance Futures Trading Bot Setup'', Prompt AskApiKey, Prompt AskApiSecret,
           Say ''API credentials are required!'']\<rparr>)"
    by (simp add: main_menu_def bind_def ret_def)
qed

theorem missing_env_credentials_fall_back_witness:
  "main testnet no_env no_args = main_menu testnet
   \<and> main_menu testnet (start ['' '', ''secret'']) =
       (Inr (),
        \<lparr>stdin = [],
         printed =
           [Say ''Binance Futures Trading Bot Setup'', Prompt AskApiKey, Prompt AskApiSecret,
            Say ''API credentials are required!''],
         calls = []\<rparr>)"
proof -
  have a: "no_env ''BINANCE_API_KEY'' = None \<or> no_env ''BINANCE_API_SECRET'' = None"
    by (simp add: no_env_def)
  have b: "stdin (start ['' '', ''secret'']) = '' '' # ''secret'' # []
    \<and> (str_strip testnet '' '' = [] \<or> str_strip testnet ''secret'' = [])"
    by (simp add: start_def string_defs)
  show ?thesis
    using missing_env_credentials_fall_back
      [where getenv = no_env and rt = testnet and a = no_args
        and s = "start ['' '', ''secret'']" and key_line = "'' ''"
        and secret_line = "''secret''" and rest = "[]"] a b
    by (simp add: start_def)
qed

text \<open>
  With no credential in the environment and both typed at the prompts, the program
  goes on to the menu and places the market order chosen there.
\<close>

theorem missing_env_credentials_counterexample:
  "no_env ''BINANCE_API_KEY'' = None
   \<and> no_env ''BINANCE_API_SECRET'' = None
   \<and> fst (main testnet no_env no_args
         (start [''key'', ''secret'', ''1'', ''BTCUSDT'', ''buy'', ''1'', ''y'', ''6''])) = Inr ()
   \<and> calls (snd (main testnet no_env no_args
         (start [''key'', ''secret'', ''1'', ''BTCUSDT'', ''buy'', ''1'', ''y'', ''6'']))) =
       [Client_new ''key'' ''secret'', Futures_account, Futures_symbol_ticker ''BTCUSDT'',
        Futures_create_order (market_order_params ''BTCUSDT'' ''BUY'' (Fin 1))]"
proof -
  define s0 where "s0 = start [''key'', ''secret'', ''1'', ''BTCUSDT'', ''buy'', ''1'', ''y'', ''6'']"
  define s1 where "s1 =
    \<lparr>stdin = [''1'', ''BTCUSDT'', ''buy'', ''1'', ''y'', ''6''],
     printed = [Say ''Binance Futures Trading Bot Setup'', Prompt AskApiKey, Prompt AskApiSecret],
     calls = [Client_new ''key'' ''secret'', Futures_account]\<rparr>"
  define s2 where "s2 =
    s1\<lparr>stdin := [''BTCUSDT'', ''buy'', ''1'', ''y'', ''6''],
       printed := printed s1 @ [Say ''BINANCE FUTURES TRADING BOT'', Prompt AskChoice]\<rparr>"
  define s3 where "s3 = snd (market_order_menu testnet s2)"
  have strips: "str_strip testnet ''key'' = ''key''" "str_strip testnet ''secret'' = ''secret''" "str_strip testnet ''1'' = ''1''"
    "str_strip testnet ''6'' = ''6''" "str_lower testnet (str_strip testnet ''y'') = ''y''" "upper ''BTCUSDT'' = ''BTCUSDT''"
    by (simp_all add: string_defs)
  have m: "main testnet no_env no_args = main_menu testnet"
    by (simp add: main_interactive batch_flags_no_credentials no_env_def)
  have "setup_bot testnet s0 = (Inr True, s1)"
    using setup_bot_connected [of s0 "''key''" "''secret''" "[''1'', ''BTCUSDT'', ''buy'', ''1'', ''y'', ''6'']" testnet]
    by (simp add: s0_def s1_def start_def strips client_new_testnet)
  then have l1: "main_menu testnet s0 = main_menu_loop testnet s1"
    by (simp add: main_menu_def bind_def)
  have run: "market_order_menu testnet s2 = (Inr (), s3)"
    and c3: "calls s3 =
       [Client_new ''key'' ''secret'', Futures_account, Futures_symbol_ticker ''BTCUSDT'',
        Futures_create_order (market_order_params ''BTCUSDT'' ''BUY'' (Fin 1))]"
    and i3: "stdin s3 = [''6'']"
    using market_order_menu_run [of s2 "''BTCUSDT''" "''buy''" "''1''" "''y''" "[''6'']" testnet
        "''BTCUSDT''" "''BUY''" "Fin 1" "Fin 200"]
    by (simp_all add: s3_def s2_def s1_def sample_simps strips)
  have l2: "main_menu_loop testnet s1 = main_menu_loop testnet s3"
    using run
    by (intro main_menu_loop_step [where line = "''1''" and act = "market_order_menu testnet"
          and rest = "[''BTCUSDT'', ''buy'', ''1'', ''y'', ''6'']"])
       (simp_all add: s1_def s2_def strips main_menu_choice_def)
  have l3: "main_menu_loop testnet s3 =
     (Inr (),
      s3\<lparr>stdin := [],
         printed := printed s3 @
           [Say ''BINANCE FUTURES TRADING BOT'', Prompt AskChoice, Say ''Goodbye!'']\<rparr>)"
    using i3 by (intro main_menu_loop_exit [where line = "''6''"]) (simp_all add: strips)
  show ?thesis
    using m l1 l2 l3 c3 by (simp add: no_env_def s0_def)
qed

section \<open>What the menus validate\<close>

lemma find_symbol_Some:
  "find_symbol symbols name = Inr (Some info)
   \<Longrightarrow> info \<in> set symbols \<and> map_of info ''symbol'' = Some name"
  by (induction symbols)
     (auto simp: getitem_def split: option.splits if_splits sum.splits)

lemma get_symbol_info_Inr:
  assumes "get_symbol_info rt symbol s = (Inr info, s')"
  shows "(\<exists>symbols. futures_exchange_info rt (calls s) = Inr symbols \<and> info \<in> set symbols)
    \<and> map_of info ''symbol'' = Some (upper symbol)
    \<and> map_of info ''status'' = Some ''TRADING''"
proof -
  from assms obtain symbols found where
    a: "futures_exchange_info rt (calls s) = Inr symbols"
    and b: "find_symbol symbols (upper symbol) = Inr (Some found)"
    and c: "map_of found ''status'' = Some ''TRADING''"
    and d: "info = found"
    by (auto simp: get_symbol_info_def prog_defs getitem_def
        split: sum.splits option.splits if_splits)
  from find_symbol_Some [OF b] a c d show ?thesis by auto
qed

lemma validate_inputs_no_symbol:
  "validate_inputs rt [] side quantity = Inl (ValueError ''Symbol is required'')"
  by (simp add: validate_inputs_def)

lemma main_batch_run:
  assumes "batch_flags getenv a = Some flags"
  shows "main rt getenv a s =
     (Inr (), s\<lparr>printed := printed s @ [ShowError (AttributeError ''api_key'')]\<rparr>)"
  using assms
  by (cases flags) (simp add: main_def args_api_key_def prog_defs)

lemma more_samples:
  "str_strip testnet ''-1'' = ''-1''" "str_strip testnet ''abc'' = ''abc''" "str_strip testnet ''0'' = ''0''"
  "str_strip testnet ''nan'' = ''nan''" "str_strip testnet '' '' = []" "str_strip testnet ''ETHUSDT'' = ''ETHUSDT''"
  "str_strip testnet ''sell'' = ''sell''"
  "upper ''buy'' = ''BUY''" "upper ''sell'' = ''SELL''" "upper ''BTCUSDT'' = ''BTCUSDT''"
  "upper ''ETHUSDT'' = ''ETHUSDT''" "upper ''btcusdt'' = ''BTCUSDT''"
  "str_lower testnet (str_strip testnet ''y'') = ''y''"
  "not_positive testnet ''-1''" "not_positive testnet ''abc''" "not_positive testnet ''0''"
  by (simp_all add: string_defs not_positive_def float_examples_simps)

lemma validate_inputs_more_samples:
  "validate_inputs testnet ''ETHUSDT'' ''buy'' ''1'' = Inr (''ETHUSDT'', ''BUY'', Fin 1)"
  "validate_inputs testnet ''BTCUSDT'' ''buy'' ''nan'' = Inr (''BTCUSDT'', ''BUY'', NaN)"
  "validate_inputs testnet ''BTCUSDT'' ''sell'' ''1'' = Inr (''BTCUSDT'', ''SELL'', Fin 1)"
  by (simp_all add: validate_inputs_def py_float_def except_ValueError_def
      float_examples_simps more_samples)

text \<open>
  A program that never asks the exchange for its symbol list: the number of
  \<open>futures_exchange_info\<close> calls is the same after it as before.
\<close>

definition no_lookup :: "'a prog \<Rightarrow> bool" where
  "no_lookup m =
     (\<forall>s. count_list (calls (snd (m s))) Futures_exchange_info =
          count_list (calls s) Futures_exchange_info)"

lemma no_lookup_ret: "no_lookup (ret x)"
  by (simp add: no_lookup_def ret_def)

lemma no_lookup_throw: "no_lookup (throw e)"
  by (simp add: no_lookup_def throw_def)

lemma no_lookup_lift: "no_lookup (lift r)"
  by (simp add: no_lookup_def lift_def)

lemma no_lookup_print: "no_lookup (py_print x)"
  by (simp add: no_lookup_def py_print_def)

lemma no_lookup_input: "no_lookup (py_input p)"
  by (simp add: no_lookup_def py_input_def split: list.splits)

lemma no_lookup_ticker: "no_lookup (client_call (Futures_symbol_ticker name) a)"
  by (simp add: no_lookup_def client_call_def)

lemma no_lookup_create: "no_lookup (client_call (Futures_create_order ps) a)"
  by (simp add: no_lookup_def client_call_def)

lemma no_lookup_bind: "no_lookup m \<Longrightarrow> (\<And>x. no_lookup (f x)) \<Longrightarrow> no_lookup (bind m f)"
  unfolding no_lookup_def bind_def
  by (auto split: prod.splits sum.splits) (metis snd_conv)+

lemma no_lookup_try: "no_lookup m \<Longrightarrow> (\<And>e. no_lookup (h e)) \<Longrightarrow> no_lookup (try_except m h)"
  unfolding no_lookup_def try_except_def
  by (auto split: prod.splits sum.splits) (metis snd_conv)+

lemma no_lookup_if: "no_lookup a \<Longrightarrow> no_lookup b \<Longrightarrow> no_lookup (if c then a else b)"
  by simp

lemma no_lookup_case_prod: "(\<And>a b. no_lookup (f a b)) \<Longrightarrow> no_lookup (case_prod f p)"
  by (cases p) simp

lemmas no_lookup_intros =
  no_lookup_ret no_lookup_throw no_lookup_lift no_lookup_print no_lookup_input
  no_lookup_ticker no_lookup_create no_lookup_bind no_lookup_try no_lookup_if
  no_lookup_case_prod

lemma no_lookup_market_order_menu: "no_lookup (market_order_menu rt)"
  unfolding market_order_menu_def input_strip_def input_strip_lower_def get_current_price_def
    place_market_order_def create_order_def display_order_details_def
  by (intro no_lookup_intros)

lemma no_lookup_limit_order_menu: "no_lookup (limit_order_menu rt)"
  unfolding limit_order_menu_def input_strip_def input_strip_lower_def get_current_price_def
    place_limit_order_def create_order_def display_order_details_def
  by (intro no_lookup_intros)

lemma no_lookup_stop_limit_order_menu: "no_lookup (stop_limit_order_menu rt)"
  unfolding stop_limit_order_menu_def input_strip_def input_strip_lower_def
    get_current_price_def place_stop_limit_order_def create_order_def
    display_order_details_def
  by (intro no_lookup_intros)

text \<open>
  C3. \<open>get_symbol_info\<close> is the program's check that a symbol is listed and trading,
  and no order menu calls it (the menus never ask the exchange for its symbol list, as
  the lemmas above show). So when the check would refuse the symbol, the market menu
  still validates the request, and a confirmed order is submitted. The statement of the
  claim (validation fails and nothing is submitted) fails on this menu.
\<close>

theorem untradable_symbol_is_submitted:
  assumes "stdin s = symbol # side # quantity # answer # rest"
    and "validate_inputs rt (str_strip rt symbol) (str_strip rt side) (str_strip rt quantity) =
           Inr (sy, sd, qty)"
    and "fst (get_symbol_info rt sy s) = Inl e"
    and "reference_price rt (calls s) sy = Inr p"
    and "str_lower rt (str_strip rt answer) = ''y''"
  shows "calls (snd (market_order_menu rt s)) =
     calls s @
       [Futures_symbol_ticker (upper sy), Futures_create_order (market_order_params sy sd qty)]"
  using assms(1,2,4,5) by (simp add: market_order_menu_run)

theorem untradable_symbol_is_submitted_witness:
  "validate_inputs testnet (str_strip testnet ''ETHUSDT'') (str_strip testnet ''buy'')
      (str_strip testnet ''1'') = Inr (''ETHUSDT'', ''BUY'', Fin 1)
   \<and> fst (get_symbol_info testnet ''ETHUSDT'' (start [''ETHUSDT'', ''buy'', ''1'', ''y''])) =
       Inl (ValueError ''Symbol ETHUSDT is not available for trading'')
   \<and> calls (snd (market_order_menu testnet (start [''ETHUSDT'', ''buy'', ''1'', ''y'']))) =
       [Futures_symbol_ticker ''ETHUSDT'',
        Futures_create_order (market_order_params ''ETHUSDT'' ''BUY'' (Fin 1))]
   \<and> last (printed (snd (market_order_menu testnet (start [''ETHUSDT'', ''buy'', ''1'', ''y''])))) =
       ShowOrder [(''orderId'', ''1''), (''status'', ''NEW'')]"
proof -
  have v: "validate_inputs testnet (str_strip testnet ''ETHUSDT'') (str_strip testnet ''buy'')
      (str_strip testnet ''1'') = Inr (''ETHUSDT'', ''BUY'', Fin 1)"
    by (simp add: sample_simps more_samples validate_inputs_more_samples)
  have g: "fst (get_symbol_info testnet ''ETHUSDT'' (start [''ETHUSDT'', ''buy'', ''1'', ''y''])) =
      Inl (ValueError ''Symbol ETHUSDT is not available for trading'')"
    by (simp add: get_symbol_info_def prog_defs testnet_def getitem_def start_def
        upper_def upper_char_def ascii_lowercase_def ascii_uppercase_def)
  have c: "calls (snd (market_order_menu testnet (start [''ETHUSDT'', ''buy'', ''1'', ''y'']))) =
      calls (start [''ETHUSDT'', ''buy'', ''1'', ''y'']) @
       [Futures_symbol_ticker (upper ''ETHUSDT''),
        Futures_create_order (market_order_params ''ETHUSDT'' ''BUY'' (Fin 1))]"
    by (rule untradable_symbol_is_submitted
          [where symbol = "''ETHUSDT''" and side = "''buy''" and quantity = "''1''"
            and answer = "''y''" and rest = "[]" and p = "Fin 200", OF _ v g])
       (simp_all add: sample_simps more_samples)
  have b: "futures_create_order testnet h ps = Inr [(''orderId'', ''1''), (''status'', ''NEW'')]"
    for h ps
    by (simp add: testnet_def)
  have l: "last (printed (snd (market_order_menu testnet
        (start [''ETHUSDT'', ''buy'', ''1'', ''y''])))) =
      ShowOrder [(''orderId'', ''1''), (''status'', ''NEW'')]"
    using market_order_menu_run
      [of "start [''ETHUSDT'', ''buy'', ''1'', ''y'']" "''ETHUSDT''" "''buy''" "''1''" "''y''" "[]"
        testnet "''ETHUSDT''" "''BUY''" "Fin 1" "Fin 200"]
    by (simp add: sample_simps more_samples validate_inputs_more_samples b getitem_def)
  show ?thesis
    using v g c l by (simp add: start_def more_samples)
qed

text \<open>
  What the interactive menus do check: a quantity text on which \<open>float()\<close> raises or
  whose value is \<open><= 0\<close> ends the menu with "Invalid quantity format", a price text of
  that kind with "Invalid price format", and no call is made on the client.
\<close>

lemma interactive_invalid_number_blocked:
  "(stdin s_m = symbol_m # side_m # quantity_m # rest_m
    \<and> str_strip rt symbol_m \<noteq> []
    \<and> upper (str_strip rt side_m) \<in> set [''BUY'', ''SELL'']
    \<and> not_positive rt (str_strip rt quantity_m)
    \<longrightarrow> last (printed (snd (market_order_menu rt s_m))) = ShowError (ValueError ''Invalid quantity format'')
      \<and> calls (snd (market_order_menu rt s_m)) = calls s_m)
   \<and> (stdin s_l = symbol_l # side_l # quantity_l # price_l # rest_l
    \<and> str_strip rt symbol_l \<noteq> []
    \<and> upper (str_strip rt side_l) \<in> set [''BUY'', ''SELL'']
    \<and> not_positive rt (str_strip rt quantity_l)
    \<longrightarrow> last (printed (snd (limit_order_menu rt s_l))) = ShowError (ValueError ''Invalid quantity format'')
      \<and> calls (snd (limit_order_menu rt s_l)) = calls s_l)
   \<and> (stdin s_t = symbol_t # side_t # quantity_t # stop_price_t # limit_price_t # rest_t
    \<and> str_strip rt symbol_t \<noteq> []
    \<and> upper (str_strip rt side_t) \<in> set [''BUY'', ''SELL'']
    \<and> not_positive rt (str_strip rt quantity_t)
    \<longrightarrow> last (printed (snd (stop_limit_order_menu rt s_t))) = ShowError (ValueError ''Invalid quantity format'')
      \<and> calls (snd (stop_limit_order_menu rt s_t)) = calls s_t)
   \<and> (stdin s_lp = symbol_lp # side_lp # quantity_lp # price_lp # rest_lp
    \<and> validate_inputs rt (str_strip rt symbol_lp) (str_strip rt side_lp) (str_strip rt quantity_lp) = Inr (sy_lp, sd_lp, qty_lp)
    \<and> not_positive rt (str_strip rt price_lp)
    \<longrightarrow> last (printed (snd (limit_order_menu rt s_lp))) = ShowError (ValueError ''Invalid price format'')
      \<and> calls (snd (limit_order_menu rt s_lp)) = calls s_lp)
   \<and> (stdin s_tp = symbol_tp # side_tp # quantity_tp # stop_price_tp # limit_price_tp # rest_tp
    \<and> validate_inputs rt (str_strip rt symbol_tp) (str_strip rt side_tp) (str_strip rt quantity_tp) = Inr (sy_tp, sd_tp, qty_tp)
    \<and> (not_positive rt (str_strip rt stop_price_tp) \<or> not_positive rt (str_strip rt limit_price_tp))
    \<longrightarrow> last (printed (snd (stop_limit_order_menu rt s_tp))) = ShowError (ValueError ''Invalid price format'')
      \<and> calls (snd (stop_limit_order_menu rt s_tp)) = calls s_tp)"
  by (auto simp: market_order_menu_invalid limit_order_menu_invalid
      stop_limit_order_menu_invalid validate_inputs_quantity
      limit_order_menu_bad_price stop_limit_order_menu_bad_price)

text \<open>
  The batch branch makes no such check: a quantity of -1 passes the test on the flags,
  and the run ends with the \<open>AttributeError\<close> of that branch, not with a quantity
  error.
\<close>

lemma batch_negative_quantity:
  "batch_flags full_env (market_args (Fin (- 1))) =
     Some (''BTCUSDT'', ''BUY'', ''MARKET'', Fin (- 1))
   \<and> main testnet full_env (market_args (Fin (- 1))) (start []) =
       (Inr (), \<lparr>stdin = [], printed = [ShowError (AttributeError ''api_key'')], calls = []\<rparr>)"
proof -
  have a: "batch_flags full_env (market_args (Fin (- 1))) =
     Some (''BTCUSDT'', ''BUY'', ''MARKET'', Fin (- 1))"
    by (simp add: batch_flags_def full_env_def market_args_def str_truthy_def float_truthy_def)
  show ?thesis
    using a main_batch_run [OF a, of testnet "start []"] by (simp add: start_def)
qed

text \<open>
  C4. The test of the interactive menus is \<open>qty <= 0\<close>, which is false for
  not-a-number: a quantity text that parses to NaN (the text "nan") is not a positive
  number and yet passes \<open>validate_inputs\<close>, and the confirmed order is submitted with
  it. The statement of the claim (an invalid-quantity error and no submission) fails on
  this input.
\<close>

theorem nan_quantity_is_submitted:
  assumes "stdin s = symbol # side # quantity # answer # rest"
    and "str_strip rt symbol \<noteq> []"
    and "upper (str_strip rt side) \<in> set [''BUY'', ''SELL'']"
    and "float_of_str rt (str_strip rt quantity) = Some NaN"
    and "reference_price rt (calls s) (upper (str_strip rt symbol)) = Inr p"
    and "str_lower rt (str_strip rt answer) = ''y''"
  shows "validate_inputs rt (str_strip rt symbol) (str_strip rt side) (str_strip rt quantity) =
       Inr (upper (str_strip rt symbol), upper (str_strip rt side), NaN)
    \<and> calls (snd (market_order_menu rt s)) =
       calls s @
         [Futures_symbol_ticker (upper (upper (str_strip rt symbol))),
          Futures_create_order
            (market_order_params (upper (str_strip rt symbol)) (upper (str_strip rt side)) NaN)]"
proof -
  have v: "validate_inputs rt (str_strip rt symbol) (str_strip rt side) (str_strip rt quantity) =
       Inr (upper (str_strip rt symbol), upper (str_strip rt side), NaN)"
    using assms(2,3,4)
    by (simp add: validate_inputs_def py_float_def except_ValueError_def)
  show ?thesis
    using v market_order_menu_run [OF assms(1) v assms(5)] assms(6) by simp
qed

theorem nan_quantity_is_submitted_witness:
  "float_of_str testnet (str_strip testnet ''nan'') = Some NaN
   \<and> validate_inputs testnet (str_strip testnet ''BTCUSDT'') (str_strip testnet ''buy'')
       (str_strip testnet ''nan'') = Inr (''BTCUSDT'', ''BUY'', NaN)
   \<and> calls (snd (market_order_menu testnet (start [''BTCUSDT'', ''buy'', ''nan'', ''y'']))) =
       [Futures_symbol_ticker ''BTCUSDT'',
        Futures_create_order (market_order_params ''BTCUSDT'' ''BUY'' NaN)]"
proof -
  have n: "float_of_str testnet (str_strip testnet ''nan'') = Some NaN"
    by (simp add: more_samples float_examples_simps)
  show ?thesis
    using n nan_quantity_is_submitted
      [where rt = testnet and s = "start [''BTCUSDT'', ''buy'', ''nan'', ''y'']"
        and symbol = "''BTCUSDT''" and side = "''buy''" and quantity = "''nan''"
        and answer = "''y''" and rest = "[]" and p = "Fin 200"]
    by (simp add: sample_simps more_samples)
qed

section \<open>The stop price and the reference price\<close>

text \<open>
  The batch branch compares the stop price with the current price before it places a
  stop-limit order: a BUY stop at or below it, or a SELL stop at or above it, is
  refused with a message and nothing is submitted.
\<close>

lemma batch_place_checks_direction:
  assumes "arg_price a = Some price" and "arg_stop_price a = Some stop_price"
    and "float_truthy price" and "float_truthy stop_price"
    and "reference_price rt (calls s) symbol = Inr p"
    and "side = ''BUY'' \<and> float_le stop_price p \<or> side = ''SELL'' \<and> float_ge stop_price p"
  shows "fst (batch_place rt a symbol side ''STOP_LIMIT'' quantity s) = Inr None
    \<and> calls (snd (batch_place rt a symbol side ''STOP_LIMIT'' quantity s)) =
        calls s @ [Futures_symbol_ticker (upper symbol)]"
  using assms
  by (auto simp: batch_place_def reference_price_def prog_defs split: sum.splits)

text \<open>
  C1. The interactive stop-limit menu makes no such comparison: with a BUY stop price
  at or below the reference price, or a SELL stop price at or above it, a confirmed
  order is still submitted. The statement of the claim (validation fails and the
  submission is never made) fails on this menu.
\<close>

theorem stop_limit_menu_ignores_direction:
  assumes "stdin s = symbol # side # quantity # stop_price # limit_price # answer # rest"
    and "validate_inputs rt (str_strip rt symbol) (str_strip rt side) (str_strip rt quantity) = Inr (sy, sd, qty)"
    and "float_of_str rt (str_strip rt stop_price) = Some stop_px"
    and "float_of_str rt (str_strip rt limit_price) = Some limit_px"
    and "\<not> float_le stop_px (Fin 0)"
    and "\<not> float_le limit_px (Fin 0)"
    and "reference_price rt (calls s) sy = Inr p"
    and "str_lower rt (str_strip rt answer) = ''y''"
    and "sd = ''BUY'' \<and> float_le stop_px p \<or> sd = ''SELL'' \<and> float_ge stop_px p"
  shows "calls (snd (stop_limit_order_menu rt s)) =
     calls s @
       [Futures_symbol_ticker (upper sy),
        Futures_create_order (stop_limit_order_params sy sd qty stop_px limit_px)]"
  using assms(1-8) by (simp add: stop_limit_order_menu_run)

theorem stop_limit_menu_ignores_direction_witness:
  "reference_price testnet [] ''BTCUSDT'' = Inr (Fin 200)
   \<and> float_le (Fin 100) (Fin 200)
   \<and> calls (snd (stop_limit_order_menu testnet
        (start [''BTCUSDT'', ''buy'', ''1'', ''100'', ''100'', ''y'']))) =
       [Futures_symbol_ticker ''BTCUSDT'',
        Futures_create_order
          (stop_limit_order_params ''BTCUSDT'' ''BUY'' (Fin 1) (Fin 100) (Fin 100))]
   \<and> float_ge (Fin 300) (Fin 200)
   \<and> calls (snd (stop_limit_order_menu testnet
        (start [''BTCUSDT'', ''sell'', ''1'', ''300'', ''100'', ''y'']))) =
       [Futures_symbol_ticker ''BTCUSDT'',
        Futures_create_order
          (stop_limit_order_params ''BTCUSDT'' ''SELL'' (Fin 1) (Fin 300) (Fin 100))]"
proof -
  have buy: "calls (snd (stop_limit_order_menu testnet
        (start [''BTCUSDT'', ''buy'', ''1'', ''100'', ''100'', ''y'']))) =
      calls (start [''BTCUSDT'', ''buy'', ''1'', ''100'', ''100'', ''y'']) @
       [Futures_symbol_ticker (upper ''BTCUSDT''),
        Futures_create_order
          (stop_limit_order_params ''BTCUSDT'' ''BUY'' (Fin 1) (Fin 100) (Fin 100))]"
    by (rule stop_limit_menu_ignores_direction
          [where symbol = "''BTCUSDT''" and side = "''buy''" and quantity = "''1''"
            and stop_price = "''100''" and limit_price = "''100''" and answer = "''y''"
            and rest = "[]" and p = "Fin 200"])
       (simp_all add: sample_simps more_samples)
  have sell: "calls (snd (stop_limit_order_menu testnet
        (start [''BTCUSDT'', ''sell'', ''1'', ''300'', ''100'', ''y'']))) =
      calls (start [''BTCUSDT'', ''sell'', ''1'', ''300'', ''100'', ''y'']) @
       [Futures_symbol_ticker (upper ''BTCUSDT''),
        Futures_create_order
          (stop_limit_order_params ''BTCUSDT'' ''SELL'' (Fin 1) (Fin 300) (Fin 100))]"
    by (rule stop_limit_menu_ignores_direction
          [where symbol = "''BTCUSDT''" and side = "''sell''" and quantity = "''1''"
            and stop_price = "''300''" and limit_price = "''100''" and answer = "''y''"
            and rest = "[]" and p = "Fin 200"])
       (simp_all add: sample_simps more_samples validate_inputs_more_samples float_ge_def)
  show ?thesis
    using buy sell
    by (simp add: sample_simps more_samples float_ge_def)
qed

end
